theory Spec2Isabelle
  imports Main "HOL-Library.Word" "HOL-Library.Char_ord" "HOL-Library.List_Lexorder"
    "HOL-Library.Multiset"
begin

unbundle bit_operations_syntax

section \<open>Bytes and the digest used for subject key identifiers\<close>

text \<open>
  Byte strings (\<^verbatim>\<open>[]byte\<close>) are lists of 8-bit words.  The function
  \<^verbatim>\<open>generateSubjectKeyID\<close> hashes the wire form of a public key with SHA-1
  (\<^verbatim>\<open>sha1.Sum\<close>); the digest is written out here after FIPS 180-4 so that
  identifiers are computed, and their length is a theorem.
\<close>

type_synonym byte = "8 word"

definition be32 :: "byte list \<Rightarrow> 32 word" where
  "be32 bs = foldl (\<lambda>acc b. push_bit 8 acc OR ucast b) 0 bs"

definition word32_bytes :: "32 word \<Rightarrow> byte list" where
  "word32_bytes w = [ucast (drop_bit 24 w), ucast (drop_bit 16 w), ucast (drop_bit 8 w), ucast w]"

definition nat_bytes_be :: "nat \<Rightarrow> nat \<Rightarrow> byte list" where
  "nat_bytes_be len n = map (\<lambda>i. word_of_nat (n div 256 ^ (len - 1 - i))) [0..<len]"

definition sha1_pad :: "byte list \<Rightarrow> byte list" where
  "sha1_pad m =
     m @ [0x80] @ replicate ((119 - length m mod 64) mod 64) 0 @ nat_bytes_be 8 (8 * length m)"

fun chunks :: "nat \<Rightarrow> 'a list \<Rightarrow> 'a list list" where
  "chunks 0 xs = []"
| "chunks (Suc k) xs = (if xs = [] then [] else take 64 xs # chunks k (drop 64 xs))"

definition sha1_words :: "byte list \<Rightarrow> 32 word list" where
  "sha1_words blk = map (\<lambda>i. be32 (take 4 (drop (4 * i) blk))) [0..<16]"

fun sha1_schedule :: "nat \<Rightarrow> 32 word list \<Rightarrow> 32 word list" where
  "sha1_schedule 0 w = w"
| "sha1_schedule (Suc k) w =
     sha1_schedule k
       (w @ [word_rotl 1 (w ! (length w - 3) XOR w ! (length w - 8)
                          XOR w ! (length w - 14) XOR w ! (length w - 16))])"

definition sha1_f :: "nat \<Rightarrow> 32 word \<Rightarrow> 32 word \<Rightarrow> 32 word \<Rightarrow> 32 word" where
  "sha1_f t b c d =
     (if t < 20 then (b AND c) OR (NOT b AND d)
      else if t < 40 then b XOR c XOR d
      else if t < 60 then (b AND c) OR (b AND d) OR (c AND d)
      else b XOR c XOR d)"

definition sha1_k :: "nat \<Rightarrow> 32 word" where
  "sha1_k t =
     (if t < 20 then 0x5A827999 else if t < 40 then 0x6ED9EBA1
      else if t < 60 then 0x8F1BBCDC else 0xCA62C1D6)"

type_synonym sha1_state = "32 word \<times> 32 word \<times> 32 word \<times> 32 word \<times> 32 word"

fun sha1_round :: "sha1_state \<Rightarrow> nat \<times> 32 word \<Rightarrow> sha1_state" where
  "sha1_round (a, b, c, d, e) (t, w) =
     (word_rotl 5 a + sha1_f t b c d + e + sha1_k t + w, a, word_rotl 30 b, c, d)"

fun sha1_block :: "sha1_state \<Rightarrow> byte list \<Rightarrow> sha1_state" where
  "sha1_block (h0, h1, h2, h3, h4) blk =
     (case foldl sha1_round (h0, h1, h2, h3, h4)
             (zip [0..<80] (sha1_schedule 64 (sha1_words blk))) of
        (a, b, c, d, e) \<Rightarrow> (h0 + a, h1 + b, h2 + c, h3 + d, h4 + e))"

definition sha1_init :: sha1_state where
  "sha1_init = (0x67452301, 0xEFCDAB89, 0x98BADCFE, 0x10325476, 0xC3D2E1F0)"

definition sha1_Sum :: "byte list \<Rightarrow> byte list" where
  "sha1_Sum m =
     (case foldl sha1_block sha1_init (chunks (length (sha1_pad m)) (sha1_pad m)) of
        (h0, h1, h2, h3, h4) \<Rightarrow>
          word32_bytes h0 @ word32_bytes h1 @ word32_bytes h2 @ word32_bytes h3 @ word32_bytes h4)"



section \<open>Keys, names, configurations and certificates\<close>

text \<open>
  An instant (\<^verbatim>\<open>time.Time\<close>) is a number of nanoseconds since the Unix epoch, an integer.
  A duration (\<^verbatim>\<open>time.Duration\<close>) is a signed 64-bit count of nanoseconds, read with
  \<open>sint\<close>.
\<close>

type_synonym Time = int
type_synonym Duration = "64 word"

datatype Curve = P224 | P256 | P384 | P521

fun BitSize :: "Curve \<Rightarrow> nat" where
  "BitSize P224 = 224"
| "BitSize P256 = 256"
| "BitSize P384 = 384"
| "BitSize P521 = 521"

text \<open>\<^verbatim>\<open>crypto.PublicKey\<close> is an open interface; the third constructor stands for
  every key type that is neither RSA nor ECDSA.\<close>

datatype PublicKey =
    RSAPublicKey (pubN: int) (pubE: int)
  | ECDSAPublicKey Curve int int
  | OtherPublicKey "byte list"

record rsa_PrivateKey =
  N :: int
  E :: int
  D :: int
  Primes :: "int list"

definition Public :: "rsa_PrivateKey \<Rightarrow> PublicKey" where
  "Public key = RSAPublicKey (N key) (E key)"

text \<open>\<^verbatim>\<open>pkix.Name\<close>.  \<^verbatim>\<open>Names\<close> holds the attributes found when a name is parsed;
  \<^verbatim>\<open>ExtraNames\<close> holds attributes to be marshalled besides the named fields.  The value of
  an attribute is taken to be a string.\<close>

type_synonym AttributeTypeAndValue = "nat list \<times> string"

record pkix_Name =
  Country :: "string list"
  Organization :: "string list"
  OrganizationalUnit :: "string list"
  Locality :: "string list"
  Province :: "string list"
  StreetAddress :: "string list"
  PostalCode :: "string list"
  SerialNumber :: string
  CommonName :: string
  Names :: "AttributeTypeAndValue list"
  ExtraNames :: "AttributeTypeAndValue list"

text \<open>
  A Go slice without elements is either nil or empty, and \<^verbatim>\<open>cmp.Diff\<close> tells the two
  apart.  Slices are kept as lists; a configuration records in \<open>EmptyNotNil\<close> which of its
  slice fields, and of those of its subject, are empty without being nil.  For a field that
  has elements the entry means nothing.
\<close>

datatype slice_field =
    DNSNames_field | ExtKeyUsages_field | IPAddresses_field
  | Country_field | Organization_field | OrganizationalUnit_field | Locality_field
  | Province_field | StreetAddress_field | PostalCode_field | ExtraNames_field

record CertCfg =
  DNSNames :: "string list"
  ExtKeyUsages :: "int list"
  IPAddresses :: "byte list list"
  KeyUsages :: int
  Subject :: pkix_Name
  Validity :: Duration
  IsCA :: bool
  EmptyNotNil :: "slice_field set"

definition is_nil :: "CertCfg \<Rightarrow> slice_field \<Rightarrow> 'a list \<Rightarrow> bool" where
  "is_nil cfg f xs \<longleftrightarrow> xs = [] \<and> f \<notin> EmptyNotNil cfg"

text \<open>The fields of \<^verbatim>\<open>x509.Certificate\<close> that this package writes or reads.  A template
  is such a value with the parsed-only fields left at their zero values.\<close>

record Cert_fields =
  cBasicConstraintsValid :: bool
  cIsCA :: bool
  cKeyUsage :: int
  cExtKeyUsage :: "int list"
  cDNSNames :: "string list"
  cIPAddresses :: "byte list list"
  cNotAfter :: Time
  cNotBefore :: Time
  cSerialNumber :: int
  cSubject :: pkix_Name
  cIssuer :: pkix_Name
  cSubjectKeyId :: "byte list"
  cVersion :: int
  cPublicKey :: "PublicKey option"

record CSR_fields =
  rSubject :: pkix_Name
  rDNSNames :: "string list"
  rIPAddresses :: "byte list list"
  rPublicKey :: "PublicKey option"

text \<open>
  DER documents.  The package never looks inside DER bytes: it hands them from the
  marshalling functions of \<^verbatim>\<open>crypto/x509\<close> to \<^verbatim>\<open>encoding/pem\<close> and back.  A document is
  therefore represented by the structure it encodes; \<open>DER_Malformed\<close> is any byte string
  that is not the encoding of one of these structures.
\<close>

datatype DER =
    DER_PKCS1PrivateKey rsa_PrivateKey
  | DER_PKIXPublicKey PublicKey
  | DER_Certificate Cert_fields
  | DER_CertificateRequest CSR_fields
  | DER_Malformed "byte list"

record x509_Certificate = Cert_fields +
  Raw :: DER

record x509_CertificateRequest = CSR_fields +
  rRaw :: DER

datatype finding =
    DNSNamesDiffer
  | ExtKeyUsagesDiffer
  | IPAddressesDiffer
  | KeyUsageDiffers int int
  | SubjectDiffers
  | RemainingValidityTooSmall Duration Duration
  | IsCADiffers bool bool

datatype error =
    RandomSourceFailed
  | InvalidSubject
  | UnsupportedPublicKey
  | NoPemBlockInPrivateKey
  | NoPemBlockInCertificate
  | Asn1ParseError
  | NotAnRSAPublicKey
  | KeyCertificateMismatch
  | X509Error
  | Wrap string error
  | Aggregate "finding list"
  | Panic


section \<open>The library functions the package calls\<close>

subsection \<open>Wire encodings of public keys\<close>

text \<open>
  \<^verbatim>\<open>asn1.Marshal(rsaPublicKey{N, E})\<close> is the DER sequence of two integers, each in minimal
  two's complement, big-endian.  \<^verbatim>\<open>elliptic.Marshal\<close> is the uncompressed point: the byte 4,
  then both coordinates in as many bytes as the curve's field needs.
\<close>

function int_bytes :: "int \<Rightarrow> byte list" where
  "int_bytes n =
     (if - 128 \<le> n \<and> n < 128 then [word_of_int n]
      else int_bytes (n div 256) @ [word_of_int (n mod 256)])"
  by pat_completeness auto
termination
  by (relation "measure (\<lambda>n. nat \<bar>n\<bar>)") auto

function nat_bytes :: "nat \<Rightarrow> byte list" where
  "nat_bytes n = (if n < 256 then [word_of_nat n] else nat_bytes (n div 256) @ [word_of_nat (n mod 256)])"
  by pat_completeness auto
termination
  by (relation "measure (\<lambda>n. n)") auto

declare int_bytes.simps [simp del] nat_bytes.simps [simp del]

definition der_length :: "nat \<Rightarrow> byte list" where
  "der_length n =
     (if n < 128 then [word_of_nat n]
      else word_of_nat (128 + length (nat_bytes n)) # nat_bytes n)"

definition der_tlv :: "byte \<Rightarrow> byte list \<Rightarrow> byte list" where
  "der_tlv tag body = tag # der_length (length body) @ body"

definition asn1_Marshal_rsaPublicKey :: "int \<Rightarrow> int \<Rightarrow> error + byte list" where
  "asn1_Marshal_rsaPublicKey n e =
     Inr (der_tlv 0x30 (der_tlv 0x02 (int_bytes n) @ der_tlv 0x02 (int_bytes e)))"

definition elliptic_Marshal :: "Curve \<Rightarrow> int \<Rightarrow> int \<Rightarrow> byte list" where
  "elliptic_Marshal curve x y =
     (let byteLen = (BitSize curve + 7) div 8
      in 4 # nat_bytes_be byteLen (nat x) @ nat_bytes_be byteLen (nat y))"

subsection \<open>Distinguished names\<close>

text \<open>
  \<^verbatim>\<open>pkix.Name.ToRDNSequence\<close>: the attributes a name is marshalled to, in the order the
  library emits them.  The values of one field make one set; a field whose attribute type
  occurs in \<^verbatim>\<open>ExtraNames\<close> is left to the extra names, which follow one by one.
  \<^verbatim>\<open>FillFromRDNSequence\<close> reads a sequence into an empty name: every attribute is appended to
  \<^verbatim>\<open>Names\<close>, and those under 2.5.4 with a known last arc go to their field.  The
  validation does not depend on the order in which the members of one set are read back.
\<close>

definition oidInAttributeTypeAndValue :: "nat list \<Rightarrow> AttributeTypeAndValue list \<Rightarrow> bool" where
  "oidInAttributeTypeAndValue oid atv = list_ex (\<lambda>a. fst a = oid) atv"

definition appendRDNs ::
    "pkix_Name \<Rightarrow> string list \<Rightarrow> nat list \<Rightarrow> AttributeTypeAndValue list list" where
  "appendRDNs n values oid =
     (if length values = 0 \<or> oidInAttributeTypeAndValue oid (ExtraNames n) then []
      else [map (\<lambda>v. (oid, v)) values])"

definition ToRDNSequence :: "pkix_Name \<Rightarrow> AttributeTypeAndValue list list" where
  "ToRDNSequence n =
     appendRDNs n (Country n) [2, 5, 4, 6] @
     appendRDNs n (Province n) [2, 5, 4, 8] @
     appendRDNs n (Locality n) [2, 5, 4, 7] @
     appendRDNs n (StreetAddress n) [2, 5, 4, 9] @
     appendRDNs n (PostalCode n) [2, 5, 4, 17] @
     appendRDNs n (Organization n) [2, 5, 4, 10] @
     appendRDNs n (OrganizationalUnit n) [2, 5, 4, 11] @
     (if length (CommonName n) > 0 then appendRDNs n [CommonName n] [2, 5, 4, 3] else []) @
     (if length (SerialNumber n) > 0 then appendRDNs n [SerialNumber n] [2, 5, 4, 5] else []) @
     map (\<lambda>atv. [atv]) (ExtraNames n)"

definition zero_Name :: pkix_Name where
  "zero_Name = \<lparr>Country = [], Organization = [], OrganizationalUnit = [], Locality = [],
     Province = [], StreetAddress = [], PostalCode = [], SerialNumber = [], CommonName = [],
     Names = [], ExtraNames = []\<rparr>"

definition fill_atv :: "pkix_Name \<Rightarrow> AttributeTypeAndValue \<Rightarrow> pkix_Name" where
  "fill_atv n atv =
     (let m = n\<lparr>Names := Names n @ [atv]\<rparr>; t = fst atv; v = snd atv in
      if t = [2, 5, 4, 3] then m\<lparr>CommonName := v\<rparr>
      else if t = [2, 5, 4, 5] then m\<lparr>SerialNumber := v\<rparr>
      else if t = [2, 5, 4, 6] then m\<lparr>Country := Country m @ [v]\<rparr>
      else if t = [2, 5, 4, 7] then m\<lparr>Locality := Locality m @ [v]\<rparr>
      else if t = [2, 5, 4, 8] then m\<lparr>Province := Province m @ [v]\<rparr>
      else if t = [2, 5, 4, 9] then m\<lparr>StreetAddress := StreetAddress m @ [v]\<rparr>
      else if t = [2, 5, 4, 10] then m\<lparr>Organization := Organization m @ [v]\<rparr>
      else if t = [2, 5, 4, 11] then m\<lparr>OrganizationalUnit := OrganizationalUnit m @ [v]\<rparr>
      else if t = [2, 5, 4, 17] then m\<lparr>PostalCode := PostalCode m @ [v]\<rparr>
      else m)"

definition FillFromRDNSequence :: "AttributeTypeAndValue list list \<Rightarrow> pkix_Name" where
  "FillFromRDNSequence rdns = foldl fill_atv zero_Name (concat rdns)"

definition parsed_Name :: "pkix_Name \<Rightarrow> pkix_Name" where
  "parsed_Name n = FillFromRDNSequence (ToRDNSequence n)"

subsection \<open>IP addresses\<close>

text \<open>
  \<^verbatim>\<open>net.IP\<close> is a byte slice: four bytes for IPv4, sixteen for IPv6, and an IPv4 address
  may also be held in sixteen bytes behind the prefix \<^verbatim>\<open>::ffff:\<close>.  \<^verbatim>\<open>To4\<close> gives the
  four-byte form where there is one, and \<^verbatim>\<open>Equal\<close> holds of two slices that are the same
  address in either form.  A subject-alternative name is written in the form \<open>san_ip\<close>:
  the four-byte one where there is one, the slice itself otherwise.
\<close>

definition v4InV6Prefix :: "byte list" where
  "v4InV6Prefix = [0, 0, 0, 0, 0, 0, 0, 0, 0, 0, 0xff, 0xff]"

definition To4 :: "byte list \<Rightarrow> byte list option" where
  "To4 ip =
     (if length ip = 4 then Some ip
      else if length ip = 16 \<and> take 12 ip = v4InV6Prefix then Some (drop 12 ip)
      else None)"

definition san_ip :: "byte list \<Rightarrow> byte list" where
  "san_ip rawIP = (case To4 rawIP of Some ip \<Rightarrow> ip | None \<Rightarrow> rawIP)"

definition IP_Equal :: "byte list \<Rightarrow> byte list \<Rightarrow> bool" where
  "IP_Equal ip x \<longleftrightarrow>
     (if length ip = length x then ip = x
      else if length ip = 4 \<and> length x = 16 then take 12 x = v4InV6Prefix \<and> ip = drop 12 x
      else if length ip = 16 \<and> length x = 4 then take 12 ip = v4InV6Prefix \<and> drop 12 ip = x
      else False)"

subsection \<open>The environment of a call\<close>

text \<open>
  What a call draws from outside: the outcome of \<^verbatim>\<open>rsa.GenerateKey(rand.Reader, keySize)\<close>,
  the outcome of \<^verbatim>\<open>rand.Int(rand.Reader, MaxInt64)\<close>, the successive readings of
  \<^verbatim>\<open>time.Now()\<close> (reading 0 is the first one of the call), and the errors, if any, with
  which \<^verbatim>\<open>x509.CreateCertificateRequest\<close> and \<^verbatim>\<open>x509.CreateCertificate\<close> give up.
\<close>

record env =
  rsa_GenerateKey :: "error + rsa_PrivateKey"
  rand_Int :: "error + int"
  time_Now :: "nat \<Rightarrow> Time"
  CreateCertificateRequest_err :: "error option"
  CreateCertificate_err :: "error option"

subsection \<open>\<^verbatim>\<open>crypto/x509\<close>\<close>

text \<open>
  \<^verbatim>\<open>x509.CreateCertificate(rand, template, parent, pub, priv)\<close> encodes the template's
  fields with the parent's subject as issuer and \<open>pub\<close> as the public key, always as
  version 3; \<^verbatim>\<open>x509.ParseCertificate\<close> reads them back and keeps the bytes in \<^verbatim>\<open>Raw\<close>.
  A name is marshalled as its attribute sequence and rebuilt from it on parsing.  X.509
  writes an instant to the second, so what is read back is the instant without its
  fraction of a second (\<open>der_time\<close>).  Of the key usage the library writes sixteen bits and
  reads back the nine that are defined.  DNS names, IP addresses and extended key usages
  are read back as the template has them; the templates of this package take their IP
  addresses from a parsed request, where they already are in the written form.  Whether
  the library accepts a template is not decided here but given by the environment.
\<close>

definition der_time :: "Time \<Rightarrow> Time" where
  "der_time t = t - t mod 1000000000"

definition x509_CreateCertificate ::
    "env \<Rightarrow> Cert_fields \<Rightarrow> Cert_fields \<Rightarrow> PublicKey \<Rightarrow> rsa_PrivateKey \<Rightarrow> error + DER" where
  "x509_CreateCertificate ev template parent pub priv =
     (case CreateCertificate_err ev of
        Some err \<Rightarrow> Inl err
      | None \<Rightarrow> Inr (DER_Certificate (template\<lparr>
          cKeyUsage := cKeyUsage template mod 512,
          cNotAfter := der_time (cNotAfter template),
          cNotBefore := der_time (cNotBefore template),
          cSubject := parsed_Name (cSubject template),
          cIssuer := parsed_Name (cSubject parent),
          cVersion := 3,
          cPublicKey := Some pub\<rparr>)))"

fun x509_ParseCertificate :: "DER \<Rightarrow> error + x509_Certificate" where
  "x509_ParseCertificate (DER_Certificate f) = Inr (Cert_fields.extend f \<lparr>Raw = DER_Certificate f\<rparr>)"
| "x509_ParseCertificate _ = Inl Asn1ParseError"

definition x509_CreateCertificateRequest :: "env \<Rightarrow> CSR_fields \<Rightarrow> rsa_PrivateKey \<Rightarrow> error + DER" where
  "x509_CreateCertificateRequest ev template priv =
     (case CreateCertificateRequest_err ev of
        Some err \<Rightarrow> Inl err
      | None \<Rightarrow> Inr (DER_CertificateRequest (template\<lparr>
          rSubject := parsed_Name (rSubject template),
          rIPAddresses := map san_ip (rIPAddresses template),
          rPublicKey := Some (Public priv)\<rparr>)))"

fun x509_ParseCertificateRequest :: "DER \<Rightarrow> error + x509_CertificateRequest" where
  "x509_ParseCertificateRequest (DER_CertificateRequest f) =
     Inr (CSR_fields.extend f \<lparr>rRaw = DER_CertificateRequest f\<rparr>)"
| "x509_ParseCertificateRequest _ = Inl Asn1ParseError"

text \<open>
  \<^verbatim>\<open>rsa.PrivateKey.Validate\<close>, which \<^verbatim>\<open>x509.ParsePKCS1PrivateKey\<close> runs on what it has
  read: the public exponent is in range, every prime exceeds 1, the primes multiply to the
  modulus, and \<open>D * E\<close> is 1 modulo each \<open>p - 1\<close>.  The PKCS#1 form stores two primes first,
  so a key in that form has at least two.
\<close>

definition rsa_Validate :: "rsa_PrivateKey \<Rightarrow> bool" where
  "rsa_Validate key \<longleftrightarrow>
     0 < N key \<and> 0 < D key \<and> 2 \<le> E key \<and> E key \<le> 2 ^ 31 - 1 \<and>
     2 \<le> length (Primes key) \<and>
     list_all (\<lambda>p. 1 < p) (Primes key) \<and>
     prod_list (Primes key) = N key \<and>
     list_all (\<lambda>p. (D key * E key - 1) mod (p - 1) = 0) (Primes key)"

text \<open>\<^verbatim>\<open>x509.MarshalPKCS1PrivateKey\<close> reads \<^verbatim>\<open>key.Primes[0]\<close> and \<^verbatim>\<open>key.Primes[1]\<close>: with
  fewer than two primes the index is out of range and the call panics.\<close>

definition x509_MarshalPKCS1PrivateKey :: "rsa_PrivateKey \<Rightarrow> error + DER" where
  "x509_MarshalPKCS1PrivateKey key =
     (if length (Primes key) < 2 then Inl Panic else Inr (DER_PKCS1PrivateKey key))"

fun x509_ParsePKCS1PrivateKey :: "DER \<Rightarrow> error + rsa_PrivateKey" where
  "x509_ParsePKCS1PrivateKey (DER_PKCS1PrivateKey key) =
     (if rsa_Validate key then Inr key else Inl Asn1ParseError)"
| "x509_ParsePKCS1PrivateKey _ = Inl Asn1ParseError"

definition x509_MarshalPKIXPublicKey :: "PublicKey \<Rightarrow> error + DER" where
  "x509_MarshalPKIXPublicKey pub =
     (case pub of OtherPublicKey b \<Rightarrow> Inl X509Error | _ \<Rightarrow> Inr (DER_PKIXPublicKey pub))"

subsection \<open>\<^verbatim>\<open>encoding/pem\<close>\<close>

text \<open>
  PEM data is a sequence of armoured blocks with other text between them.
  \<^verbatim>\<open>pem.EncodeToMemory\<close> writes one block; \<^verbatim>\<open>pem.Decode\<close> returns the first block of its
  input, or nil when there is none.  (The package discards the rest of the input.)
\<close>

record pem_Block =
  Type :: string
  Bytes :: DER

datatype pem_item = Armour pem_Block | Text string

type_synonym PEM = "pem_item list"

definition pem_EncodeToMemory :: "pem_Block \<Rightarrow> PEM" where
  "pem_EncodeToMemory b = [Armour b]"

fun pem_Decode :: "PEM \<Rightarrow> pem_Block option" where
  "pem_Decode [] = None"
| "pem_Decode (Armour b # rest) = Some b"
| "pem_Decode (Text t # rest) = pem_Decode rest"

subsection \<open>\<^verbatim>\<open>go-cmp\<close> and \<^verbatim>\<open>time\<close>\<close>

text \<open>
  \<^verbatim>\<open>cmp.Diff(x, y, cmpopts.SortSlices(less))\<close> on two slices is empty exactly when both
  are nil, or neither is and the slices, each sorted by \<open>less\<close>, have the same length and
  equal elements.  Elements are equal when they are the same, except that a type with an
  \<^verbatim>\<open>Equal\<close> method is compared by it: \<^verbatim>\<open>net.IP\<close> is.  The three orders the package passes are
  the built-in order of strings, of integers, and \<^verbatim>\<open>bytes.Compare\<close>, which on lists is the
  lexicographic order.  Each function takes, before a slice, whether it is nil.
\<close>

definition Diff_SortSlices :: "bool \<Rightarrow> ('a :: linorder) list \<Rightarrow> bool \<Rightarrow> 'a list \<Rightarrow> bool" where
  "Diff_SortSlices xnil x ynil y \<longleftrightarrow> xnil \<noteq> ynil \<or> sort x \<noteq> sort y"

definition Diff_SortSlices_IP :: "bool \<Rightarrow> byte list list \<Rightarrow> bool \<Rightarrow> byte list list \<Rightarrow> bool" where
  "Diff_SortSlices_IP xnil x ynil y \<longleftrightarrow> xnil \<noteq> ynil \<or> \<not> list_all2 IP_Equal (sort x) (sort y)"

definition Diff_slices :: "bool \<Rightarrow> 'a list \<Rightarrow> bool \<Rightarrow> 'a list \<Rightarrow> bool" where
  "Diff_slices xnil x ynil y \<longleftrightarrow> xnil \<noteq> ynil \<or> x \<noteq> y"

text \<open>
  \<^verbatim>\<open>Time.Add\<close> is exact.  \<^verbatim>\<open>time.Until(t)\<close> is \<open>t\<close> minus the clock reading as a duration;
  where the difference does not fit 64 bits it is the largest or the smallest duration.
\<close>

definition time_Add :: "Time \<Rightarrow> Duration \<Rightarrow> Time" where
  "time_Add t d = t + sint d"

definition time_Until :: "Time \<Rightarrow> Time \<Rightarrow> Duration" where
  "time_Until t now =
     (if t - now < - (2 ^ 63) then word_of_int (- (2 ^ 63))
      else if 2 ^ 63 - 1 < t - now then word_of_int (2 ^ 63 - 1)
      else word_of_int (t - now))"


section \<open>The package \<^verbatim>\<open>certs\<close>\<close>

definition PrivateKey :: "env \<Rightarrow> error + rsa_PrivateKey" where
  "PrivateKey ev =
     (case rsa_GenerateKey ev of
        Inl err \<Rightarrow> Inl (Wrap ''error generating RSA private key'' err)
      | Inr rsaKey \<Rightarrow> Inr rsaKey)"

definition generateSubjectKeyID :: "PublicKey \<Rightarrow> error + byte list" where
  "generateSubjectKeyID pub =
     (case pub of
        RSAPublicKey n e \<Rightarrow>
          (case asn1_Marshal_rsaPublicKey n e of
             Inl err \<Rightarrow> Inl (Wrap ''failed to Marshal ans1 public key'' err)
           | Inr publicKeyBytes \<Rightarrow> Inr (sha1_Sum publicKeyBytes))
      | ECDSAPublicKey curve x y \<Rightarrow> Inr (sha1_Sum (elliptic_Marshal curve x y))
      | _ \<Rightarrow> Inl UnsupportedPublicKey)"

text \<open>The certificate literal of \<^verbatim>\<open>SelfSignedCertificate\<close>: seven fields are set, the
  others keep their zero values.  Its two clock readings are taken in the order of the
  literal, \<^verbatim>\<open>NotAfter\<close> first.\<close>

definition SelfSigned_template :: "env \<Rightarrow> CertCfg \<Rightarrow> int \<Rightarrow> Cert_fields" where
  "SelfSigned_template ev cfg serial =
     \<lparr>cBasicConstraintsValid = True,
      cIsCA = IsCA cfg,
      cKeyUsage = KeyUsages cfg,
      cExtKeyUsage = [],
      cDNSNames = [],
      cIPAddresses = [],
      cNotAfter = time_Add (time_Now ev 0) (Validity cfg),
      cNotBefore = time_Now ev 1,
      cSerialNumber = serial,
      cSubject = Subject cfg,
      cIssuer = zero_Name,
      cSubjectKeyId = [],
      cVersion = 0,
      cPublicKey = None\<rparr>"

definition SelfSignedCertificate :: "env \<Rightarrow> CertCfg \<Rightarrow> rsa_PrivateKey \<Rightarrow> error + x509_Certificate" where
  "SelfSignedCertificate ev cfg key =
     (case rand_Int ev of
        Inl err \<Rightarrow> Inl err
      | Inr serial \<Rightarrow>
          let cert = SelfSigned_template ev cfg serial in
          if length (CommonName (Subject cfg)) = 0 \<or> length (OrganizationalUnit (Subject cfg)) = 0
          then Inl InvalidSubject
          else
            (case generateSubjectKeyID (Public key) of
               Inl err \<Rightarrow> Inl (Wrap ''failed to set subject key identifier'' err)
             | Inr ski \<Rightarrow>
                 let cert = cert\<lparr>cSubjectKeyId := ski\<rparr> in
                 (case x509_CreateCertificate ev cert cert (Public key) key of
                    Inl err \<Rightarrow> Inl (Wrap ''failed to create certificate'' err)
                  | Inr certBytes \<Rightarrow> x509_ParseCertificate certBytes)))"

definition signed_template ::
    "env \<Rightarrow> CertCfg \<Rightarrow> x509_CertificateRequest \<Rightarrow> x509_Certificate \<Rightarrow> int \<Rightarrow> Cert_fields" where
  "signed_template ev cfg csr caCert serial =
     \<lparr>cBasicConstraintsValid = True,
      cIsCA = IsCA cfg,
      cKeyUsage = KeyUsages cfg,
      cExtKeyUsage = ExtKeyUsages cfg,
      cDNSNames = rDNSNames csr,
      cIPAddresses = rIPAddresses csr,
      cNotAfter = time_Add (time_Now ev 0) (Validity cfg),
      cNotBefore = cNotBefore caCert,
      cSerialNumber = serial,
      cSubject = rSubject csr,
      cIssuer = zero_Name,
      cSubjectKeyId = [],
      cVersion = 3,
      cPublicKey = None\<rparr>"

text \<open>\<^verbatim>\<open>caCert.PublicKey.(*rsa.PublicKey)\<close> is a type assertion without the \<open>ok\<close> result:
  on any other key it panics.\<close>

definition signedCertificate ::
    "env \<Rightarrow> CertCfg \<Rightarrow> x509_CertificateRequest \<Rightarrow> rsa_PrivateKey \<Rightarrow> x509_Certificate
       \<Rightarrow> rsa_PrivateKey \<Rightarrow> error + x509_Certificate" where
  "signedCertificate ev cfg csr key caCert caKey =
     (case rand_Int ev of
        Inl err \<Rightarrow> Inl err
      | Inr serial \<Rightarrow>
          let certTmpl = signed_template ev cfg csr caCert serial in
          (case cPublicKey caCert of
             Some (RSAPublicKey n e) \<Rightarrow>
               (case generateSubjectKeyID (RSAPublicKey n e) of
                  Inl err \<Rightarrow> Inl (Wrap ''failed to set subject key identifier'' err)
                | Inr ski \<Rightarrow>
                    (case x509_CreateCertificate ev (certTmpl\<lparr>cSubjectKeyId := ski\<rparr>)
                            (Cert_fields.truncate caCert) (Public key) caKey of
                       Inl err \<Rightarrow> Inl (Wrap ''failed to create x509 certificate'' err)
                     | Inr certBytes \<Rightarrow> x509_ParseCertificate certBytes))
           | _ \<Rightarrow> Inl Panic))"


definition GenerateSignedCertificate ::
    "env \<Rightarrow> rsa_PrivateKey \<Rightarrow> x509_Certificate \<Rightarrow> CertCfg
       \<Rightarrow> error + rsa_PrivateKey \<times> x509_Certificate" where
  "GenerateSignedCertificate ev caKey caCert cfg =
     (case PrivateKey ev of
        Inl err \<Rightarrow> Inl (Wrap ''failed to generate private key'' err)
      | Inr key \<Rightarrow>
          let csrTmpl = \<lparr>rSubject = Subject cfg, rDNSNames = DNSNames cfg,
                         rIPAddresses = IPAddresses cfg, rPublicKey = None\<rparr> in
          (case x509_CreateCertificateRequest ev csrTmpl key of
             Inl err \<Rightarrow> Inl (Wrap ''failed to create certificate request'' err)
           | Inr csrBytes \<Rightarrow>
               (case x509_ParseCertificateRequest csrBytes of
                  Inl err \<Rightarrow> Inl (Wrap ''error parsing x509 certificate request'' err)
                | Inr csr \<Rightarrow>
                    (case signedCertificate ev cfg csr key caCert caKey of
                       Inl Panic \<Rightarrow> Inl Panic
                     | Inl err \<Rightarrow> Inl (Wrap ''failed to create a signed certificate'' err)
                     | Inr cert \<Rightarrow> Inr (key, cert)))))"

subsection \<open>PEM\<close>

definition PrivateKeyToPem :: "rsa_PrivateKey \<Rightarrow> error + PEM" where
  "PrivateKeyToPem key =
     (case x509_MarshalPKCS1PrivateKey key of
        Inl err \<Rightarrow> Inl err
      | Inr keyInBytes \<Rightarrow>
          Inr (pem_EncodeToMemory \<lparr>Type = ''RSA PRIVATE KEY'', Bytes = keyInBytes\<rparr>))"

definition CertToPem :: "x509_Certificate \<Rightarrow> PEM" where
  "CertToPem cert = pem_EncodeToMemory \<lparr>Type = ''CERTIFICATE'', Bytes = Raw cert\<rparr>"

definition CSRToPem :: "x509_CertificateRequest \<Rightarrow> PEM" where
  "CSRToPem cert = pem_EncodeToMemory \<lparr>Type = ''CERTIFICATE REQUEST'', Bytes = rRaw cert\<rparr>"

definition PublicKeyToPem :: "PublicKey \<Rightarrow> error + PEM" where
  "PublicKeyToPem key =
     (case x509_MarshalPKIXPublicKey key of
        Inl err \<Rightarrow> Inl (Wrap ''failed to MarshalPKIXPublicKey'' err)
      | Inr keyInBytes \<Rightarrow>
          Inr (pem_EncodeToMemory \<lparr>Type = ''RSA PUBLIC KEY'', Bytes = keyInBytes\<rparr>))"

definition PemToPrivateKey :: "PEM \<Rightarrow> error + rsa_PrivateKey" where
  "PemToPrivateKey data =
     (case pem_Decode data of
        None \<Rightarrow> Inl NoPemBlockInPrivateKey
      | Some block \<Rightarrow> x509_ParsePKCS1PrivateKey (Bytes block))"

definition PemToCertificate :: "PEM \<Rightarrow> error + x509_Certificate" where
  "PemToCertificate data =
     (case pem_Decode data of
        None \<Rightarrow> Inl NoPemBlockInCertificate
      | Some block \<Rightarrow> x509_ParseCertificate (Bytes block))"

subsection \<open>Validation\<close>

definition parsePemKeypair :: "PEM \<Rightarrow> PEM \<Rightarrow> error + rsa_PrivateKey \<times> x509_Certificate" where
  "parsePemKeypair key certificate =
     (case PemToPrivateKey key of
        Inl err \<Rightarrow> Inl err
      | Inr privKey \<Rightarrow>
          (case PemToCertificate certificate of
             Inl err \<Rightarrow> Inl err
           | Inr cert \<Rightarrow>
               (case cPublicKey cert of
                  Some (RSAPublicKey n e) \<Rightarrow>
                    if n \<noteq> N privKey then Inl KeyCertificateMismatch else Inr (privKey, cert)
                | _ \<Rightarrow> Inl NotAnRSAPublicKey)))"

text \<open>The subject comparison sorts every slice of strings and ignores \<^verbatim>\<open>Names\<close>; the
  certificate's name comes first, then the configuration with its subject.  A slice of a
  parsed certificate is nil when it is empty.\<close>

definition subjectDiff :: "pkix_Name \<Rightarrow> CertCfg \<Rightarrow> bool" where
  "subjectDiff x cfg \<longleftrightarrow>
     (let y = Subject cfg in
      Diff_SortSlices (Country x = []) (Country x)
        (is_nil cfg Country_field (Country y)) (Country y) \<or>
      Diff_SortSlices (Organization x = []) (Organization x)
        (is_nil cfg Organization_field (Organization y)) (Organization y) \<or>
      Diff_SortSlices (OrganizationalUnit x = []) (OrganizationalUnit x)
        (is_nil cfg OrganizationalUnit_field (OrganizationalUnit y)) (OrganizationalUnit y) \<or>
      Diff_SortSlices (Locality x = []) (Locality x)
        (is_nil cfg Locality_field (Locality y)) (Locality y) \<or>
      Diff_SortSlices (Province x = []) (Province x)
        (is_nil cfg Province_field (Province y)) (Province y) \<or>
      Diff_SortSlices (StreetAddress x = []) (StreetAddress x)
        (is_nil cfg StreetAddress_field (StreetAddress y)) (StreetAddress y) \<or>
      Diff_SortSlices (PostalCode x = []) (PostalCode x)
        (is_nil cfg PostalCode_field (PostalCode y)) (PostalCode y) \<or>
      SerialNumber x \<noteq> SerialNumber y \<or>
      CommonName x \<noteq> CommonName y \<or>
      Diff_slices (ExtraNames x = []) (ExtraNames x)
        (is_nil cfg ExtraNames_field (ExtraNames y)) (ExtraNames y))"

definition NewAggregate :: "finding list \<Rightarrow> error option" where
  "NewAggregate errs = (if errs = [] then None else Some (Aggregate errs))"

text \<open>The findings of \<^verbatim>\<open>ValidateKeyPair\<close> on a parsed certificate, appended in the order
  of the source; \<open>now\<close> is the clock reading of \<^verbatim>\<open>time.Until\<close>.\<close>

definition findings :: "Time \<Rightarrow> x509_Certificate \<Rightarrow> CertCfg \<Rightarrow> Duration \<Rightarrow> finding list" where
  "findings now cert cfg minimumRemainingValidity =
     (if Diff_SortSlices (cDNSNames cert = []) (cDNSNames cert)
           (is_nil cfg DNSNames_field (DNSNames cfg)) (DNSNames cfg)
      then [DNSNamesDiffer] else []) @
     (if Diff_SortSlices (cExtKeyUsage cert = []) (cExtKeyUsage cert)
           (is_nil cfg ExtKeyUsages_field (ExtKeyUsages cfg)) (ExtKeyUsages cfg)
      then [ExtKeyUsagesDiffer] else []) @
     (if Diff_SortSlices_IP (cIPAddresses cert = []) (cIPAddresses cert)
           (is_nil cfg IPAddresses_field (IPAddresses cfg)) (IPAddresses cfg)
      then [IPAddressesDiffer] else []) @
     (if cKeyUsage cert \<noteq> KeyUsages cfg
      then [KeyUsageDiffers (cKeyUsage cert) (KeyUsages cfg)] else []) @
     (if subjectDiff (cSubject cert) cfg then [SubjectDiffers] else []) @
     (let remainingvalidity = time_Until (cNotAfter cert) now in
      if remainingvalidity <s minimumRemainingValidity
      then [RemainingValidityTooSmall remainingvalidity minimumRemainingValidity] else []) @
     (if cIsCA cert \<noteq> IsCA cfg then [IsCADiffers (cIsCA cert) (IsCA cfg)] else [])"

definition ValidateKeyPair :: "Time \<Rightarrow> PEM \<Rightarrow> PEM \<Rightarrow> CertCfg \<Rightarrow> Duration \<Rightarrow> error option" where
  "ValidateKeyPair now pemKey pemCertificate cfg minimumRemainingValidity =
     (case parsePemKeypair pemKey pemCertificate of
        Inl err \<Rightarrow> Some (Wrap ''failed to parse keypair'' err)
      | Inr (privKey, cert) \<Rightarrow> NewAggregate (findings now cert cfg minimumRemainingValidity))"


section \<open>Notions used to state the properties\<close>

text \<open>Whether a verdict of \<^verbatim>\<open>ValidateKeyPair\<close> holds a remaining-validity finding.\<close>

fun is_validity_finding :: "finding \<Rightarrow> bool" where
  "is_validity_finding (RemainingValidityTooSmall r m) = True"
| "is_validity_finding _ = False"

fun records_validity_failure :: "error option \<Rightarrow> bool" where
  "records_validity_failure (Some (Aggregate errs)) = list_ex is_validity_finding errs"
| "records_validity_failure _ = False"

fun complaints :: "error option \<Rightarrow> finding list" where
  "complaints (Some (Aggregate errs)) = errs"
| "complaints _ = []"

fun is_field_finding :: "finding \<Rightarrow> bool" where
  "is_field_finding (RemainingValidityTooSmall r m) = False"
| "is_field_finding _ = True"

text \<open>
  The number of fields among DNS names, IP addresses, key usage, extended key usage,
  subject and IsCA in which a certificate differs from a configuration.  Multi-valued
  fields differ when they do not hold the same values the same number of times, in
  whatever order; an IP address is the same in its four-byte and its sixteen-byte form.
\<close>

definition subject_differs :: "pkix_Name \<Rightarrow> pkix_Name \<Rightarrow> bool" where
  "subject_differs x y \<longleftrightarrow>
     mset (Country x) \<noteq> mset (Country y) \<or>
     mset (Organization x) \<noteq> mset (Organization y) \<or>
     mset (OrganizationalUnit x) \<noteq> mset (OrganizationalUnit y) \<or>
     mset (Locality x) \<noteq> mset (Locality y) \<or>
     mset (Province x) \<noteq> mset (Province y) \<or>
     mset (StreetAddress x) \<noteq> mset (StreetAddress y) \<or>
     mset (PostalCode x) \<noteq> mset (PostalCode y) \<or>
     SerialNumber x \<noteq> SerialNumber y \<or>
     CommonName x \<noteq> CommonName y \<or>
     ExtraNames x \<noteq> ExtraNames y"

definition differing_fields :: "x509_Certificate \<Rightarrow> CertCfg \<Rightarrow> nat" where
  "differing_fields cert cfg =
     length (filter id
       [mset (cDNSNames cert) \<noteq> mset (DNSNames cfg),
        mset (map san_ip (cIPAddresses cert)) \<noteq> mset (map san_ip (IPAddresses cfg)),
        cKeyUsage cert \<noteq> KeyUsages cfg,
        mset (cExtKeyUsage cert) \<noteq> mset (ExtKeyUsages cfg),
        subject_differs (cSubject cert) (Subject cfg),
        cIsCA cert \<noteq> IsCA cfg])"




text \<open>
  What \<^verbatim>\<open>x509.CreateCertificate\<close> encodes for the two issuing functions: the template
  with its subject key identifier, as the library writes it.
\<close>

definition written :: "Cert_fields \<Rightarrow> pkix_Name \<Rightarrow> PublicKey \<Rightarrow> Cert_fields" where
  "written template issuer pub = template\<lparr>
     cKeyUsage := cKeyUsage template mod 512,
     cNotAfter := der_time (cNotAfter template),
     cNotBefore := der_time (cNotBefore template),
     cSubject := parsed_Name (cSubject template),
     cIssuer := parsed_Name issuer,
     cVersion := 3,
     cPublicKey := Some pub\<rparr>"

definition SelfSigned_der :: "env \<Rightarrow> CertCfg \<Rightarrow> rsa_PrivateKey \<Rightarrow> int \<Rightarrow> Cert_fields" where
  "SelfSigned_der ev cfg key serial =
     written ((SelfSigned_template ev cfg serial)\<lparr>
        cSubjectKeyId :=
          sha1_Sum (der_tlv 0x30 (der_tlv 0x02 (int_bytes (N key)) @ der_tlv 0x02 (int_bytes (E key))))\<rparr>)
       (Subject cfg) (Public key)"

definition signed_der :: "env \<Rightarrow> CertCfg \<Rightarrow> x509_CertificateRequest \<Rightarrow> rsa_PrivateKey
    \<Rightarrow> x509_Certificate \<Rightarrow> int \<Rightarrow> int \<Rightarrow> int \<Rightarrow> Cert_fields" where
  "signed_der ev cfg csr key caCert serial n e =
     written ((signed_template ev cfg csr caCert serial)\<lparr>
        cSubjectKeyId :=
          sha1_Sum (der_tlv 0x30 (der_tlv 0x02 (int_bytes n) @ der_tlv 0x02 (int_bytes e)))\<rparr>)
       (cSubject caCert) (Public key)"

text \<open>The request that \<^verbatim>\<open>GenerateSignedCertificate\<close> creates for a key and parses back.\<close>

definition csr_of :: "CertCfg \<Rightarrow> rsa_PrivateKey \<Rightarrow> CSR_fields" where
  "csr_of cfg key = \<lparr>rSubject = parsed_Name (Subject cfg), rDNSNames = DNSNames cfg,
     rIPAddresses = map san_ip (IPAddresses cfg), rPublicKey = Some (Public key)\<rparr>"

section \<open>Sample inputs\<close>

text \<open>Two small RSA keys (61 * 53 and 53 * 59); an environment in which nothing fails and
  whose clock does not stand on a whole second; a configuration for a CA certificate and
  one with subject-alternative names, its IP address in the sixteen-byte form; variants of
  these; a CA certificate for the second key, and a certificate that expired in 1700.\<close>

definition sample_key :: rsa_PrivateKey where
  "sample_key = \<lparr>N = 3233, E = 17, D = 413, Primes = [61, 53]\<rparr>"

definition sample_caKey :: rsa_PrivateKey where
  "sample_caKey = \<lparr>N = 3127, E = 3, D = 503, Primes = [53, 59]\<rparr>"

definition sample_env :: env where
  "sample_env = \<lparr>rsa_GenerateKey = Inr sample_key, rand_Int = Inr 42,
     time_Now = (\<lambda>i. 1700000000468340546 + int i * 1000000000),
     CreateCertificateRequest_err = None, CreateCertificate_err = None\<rparr>"

definition sample_subject :: pkix_Name where
  "sample_subject = zero_Name\<lparr>CommonName := ''test'', OrganizationalUnit := [''ou'']\<rparr>"

definition sample_cfg :: CertCfg where
  "sample_cfg = \<lparr>DNSNames = [], ExtKeyUsages = [], IPAddresses = [], KeyUsages = 5,
     Subject = sample_subject, Validity = 86400000000000, IsCA = True, EmptyNotNil = {}\<rparr>"

definition sample_cfg_san :: CertCfg where
  "sample_cfg_san = \<lparr>DNSNames = [''kube-apiserver'', ''api.example.com''],
     ExtKeyUsages = [2, 1],
     IPAddresses = [[0, 0, 0, 0, 0, 0, 0, 0, 0, 0, 0xff, 0xff, 10, 0, 0, 1]], KeyUsages = 5,
     Subject = sample_subject, Validity = 3600000000000, IsCA = False, EmptyNotNil = {}\<rparr>"

definition sample_cfg_expired :: CertCfg where
  "sample_cfg_expired = sample_cfg_san\<lparr>Validity := 0\<rparr>"

definition sample_cfg_ku512 :: CertCfg where
  "sample_cfg_ku512 = sample_cfg_san\<lparr>KeyUsages := 512\<rparr>"

definition sample_cfg_emptydns :: CertCfg where
  "sample_cfg_emptydns = sample_cfg\<lparr>EmptyNotNil := {DNSNames_field}\<rparr>"

definition sample_caCert :: x509_Certificate where
  "sample_caCert = \<lparr>cBasicConstraintsValid = True, cIsCA = True, cKeyUsage = 96,
     cExtKeyUsage = [], cDNSNames = [], cIPAddresses = [],
     cNotAfter = 1900000000000000000, cNotBefore = 1600000000000000000,
     cSerialNumber = 7,
     cSubject = parsed_Name (zero_Name\<lparr>CommonName := ''root-ca'', OrganizationalUnit := [''openshift'']\<rparr>),
     cIssuer = parsed_Name (zero_Name\<lparr>CommonName := ''root-ca'', OrganizationalUnit := [''openshift'']\<rparr>),
     cSubjectKeyId = [], cVersion = 3, cPublicKey = Some (Public sample_caKey),
     Raw = DER_Malformed []\<rparr>"

definition sample_ecCert :: x509_Certificate where
  "sample_ecCert = sample_caCert\<lparr>cPublicKey := Some (ECDSAPublicKey P256 1 2)\<rparr>"

definition sample_csr :: "CertCfg \<Rightarrow> x509_CertificateRequest" where
  "sample_csr cfg = CSR_fields.extend (csr_of cfg sample_key)
     \<lparr>rRaw = DER_CertificateRequest (csr_of cfg sample_key)\<rparr>"

definition sample_selfsigned :: "CertCfg \<Rightarrow> x509_Certificate" where
  "sample_selfsigned cfg = Cert_fields.extend (SelfSigned_der sample_env cfg sample_key 42)
     \<lparr>Raw = DER_Certificate (SelfSigned_der sample_env cfg sample_key 42)\<rparr>"

definition sample_signed :: "CertCfg \<Rightarrow> x509_Certificate" where
  "sample_signed cfg =
     Cert_fields.extend (signed_der sample_env cfg (sample_csr cfg) sample_key sample_caCert 42 3127 3)
     \<lparr>Raw = DER_Certificate
              (signed_der sample_env cfg (sample_csr cfg) sample_key sample_caCert 42 3127 3)\<rparr>"

definition sample_old_fields :: Cert_fields where
  "sample_old_fields =
     (signed_der sample_env sample_cfg_san (sample_csr sample_cfg_san) sample_key sample_caCert
        42 3127 3)\<lparr>cNotAfter := - 8520336000000000000, cNotBefore := - 8520339600000000000\<rparr>"

definition sample_old :: x509_Certificate where
  "sample_old = Cert_fields.extend sample_old_fields \<lparr>Raw = DER_Certificate sample_old_fields\<rparr>"

definition sample_key_pem :: PEM where
  "sample_key_pem = [Armour \<lparr>Type = ''RSA PRIVATE KEY'', Bytes = DER_PKCS1PrivateKey sample_key\<rparr>]"

definition sample_caKey_pem :: PEM where
  "sample_caKey_pem = [Armour \<lparr>Type = ''RSA PRIVATE KEY'', Bytes = DER_PKCS1PrivateKey sample_caKey\<rparr>]"


section \<open>Properties of the library functions\<close>

lemma sha1_Sum_length: "length (sha1_Sum m) = 20"
  by (simp add: sha1_Sum_def word32_bytes_def split: prod.splits)

lemma sort_neq_iff_mset: "sort x \<noteq> sort y \<longleftrightarrow> mset x \<noteq> mset y"
  by (metis mset_sort properties_for_sort sorted_sort)

lemma take_drop_eq: "take n a = take n b \<Longrightarrow> drop n a = drop n b \<Longrightarrow> a = b"
  by (metis append_take_drop_id)

lemma IP_Equal_iff: "IP_Equal a b \<longleftrightarrow> san_ip a = san_ip b"
  unfolding IP_Equal_def san_ip_def To4_def
  by (auto simp: v4InV6Prefix_def split: if_splits dest: arg_cong [where f = length]
      intro: take_drop_eq [where n = 12])

lemma sint_word_of_int_64:
  "- (2 ^ 63) \<le> k \<Longrightarrow> k < 2 ^ 63 \<Longrightarrow> sint (word_of_int k :: 64 word) = k"
  by (simp add: sint_sbintrunc' signed_take_bit_int_eq_self)

lemma sint_saturate:
  "sint (if d < - (2 ^ 63) then word_of_int (- (2 ^ 63))
         else if 2 ^ 63 - 1 < d then word_of_int (2 ^ 63 - 1)
         else (word_of_int d :: 64 word)) = max (- (2 ^ 63)) (min (2 ^ 63 - 1) d)"
  by (auto simp: sint_word_of_int_64 max_def min_def)

lemma sint_time_Until:
  "sint (time_Until t now) = max (- (2 ^ 63)) (min (2 ^ 63 - 1) (t - now))"
  unfolding time_Until_def by (rule sint_saturate)


lemma concat_appendRDNs:
  "ExtraNames n = [] \<Longrightarrow> concat (appendRDNs n vs oid) = map (\<lambda>v. (oid, v)) vs"
  by (simp add: appendRDNs_def oidInAttributeTypeAndValue_def)

lemma fill_Country:
  "foldl fill_atv m (map (\<lambda>v. ([2, 5, 4, 6], v)) vs) =
     m\<lparr>Country := Country m @ vs, Names := Names m @ map (\<lambda>v. ([2, 5, 4, 6], v)) vs\<rparr>"
  by (induction vs arbitrary: m) (simp_all add: fill_atv_def Let_def)

lemma fill_Province:
  "foldl fill_atv m (map (\<lambda>v. ([2, 5, 4, 8], v)) vs) =
     m\<lparr>Province := Province m @ vs, Names := Names m @ map (\<lambda>v. ([2, 5, 4, 8], v)) vs\<rparr>"
  by (induction vs arbitrary: m) (simp_all add: fill_atv_def Let_def)

lemma fill_Locality:
  "foldl fill_atv m (map (\<lambda>v. ([2, 5, 4, 7], v)) vs) =
     m\<lparr>Locality := Locality m @ vs, Names := Names m @ map (\<lambda>v. ([2, 5, 4, 7], v)) vs\<rparr>"
  by (induction vs arbitrary: m) (simp_all add: fill_atv_def Let_def)

lemma fill_StreetAddress:
  "foldl fill_atv m (map (\<lambda>v. ([2, 5, 4, 9], v)) vs) =
     m\<lparr>StreetAddress := StreetAddress m @ vs, Names := Names m @ map (\<lambda>v. ([2, 5, 4, 9], v)) vs\<rparr>"
  by (induction vs arbitrary: m) (simp_all add: fill_atv_def Let_def)

lemma fill_PostalCode:
  "foldl fill_atv m (map (\<lambda>v. ([2, 5, 4, 17], v)) vs) =
     m\<lparr>PostalCode := PostalCode m @ vs, Names := Names m @ map (\<lambda>v. ([2, 5, 4, 17], v)) vs\<rparr>"
  by (induction vs arbitrary: m) (simp_all add: fill_atv_def Let_def)

lemma fill_Organization:
  "foldl fill_atv m (map (\<lambda>v. ([2, 5, 4, 10], v)) vs) =
     m\<lparr>Organization := Organization m @ vs, Names := Names m @ map (\<lambda>v. ([2, 5, 4, 10], v)) vs\<rparr>"
  by (induction vs arbitrary: m) (simp_all add: fill_atv_def Let_def)

lemma fill_OrganizationalUnit:
  "foldl fill_atv m (map (\<lambda>v. ([2, 5, 4, 11], v)) vs) =
     m\<lparr>OrganizationalUnit := OrganizationalUnit m @ vs,
       Names := Names m @ map (\<lambda>v. ([2, 5, 4, 11], v)) vs\<rparr>"
  by (induction vs arbitrary: m) (simp_all add: fill_atv_def Let_def)

lemma parsed_Name_plain:
  assumes "ExtraNames n = []"
  shows "parsed_Name n = n\<lparr>Names := concat (ToRDNSequence n)\<rparr>"
  using assms
  by (simp add: parsed_Name_def FillFromRDNSequence_def ToRDNSequence_def concat_appendRDNs
      fill_Country fill_Province fill_Locality fill_StreetAddress fill_PostalCode
      fill_Organization fill_OrganizationalUnit zero_Name_def fill_atv_def Let_def)


lemma generateSubjectKeyID_rsa:
  "generateSubjectKeyID (RSAPublicKey n e) =
     Inr (sha1_Sum (der_tlv 0x30 (der_tlv 0x02 (int_bytes n) @ der_tlv 0x02 (int_bytes e))))"
  by (simp add: generateSubjectKeyID_def asn1_Marshal_rsaPublicKey_def)

lemma SelfSignedCertificate_ok:
  assumes "rand_Int ev = Inr serial" "CommonName (Subject cfg) \<noteq> []"
    "OrganizationalUnit (Subject cfg) \<noteq> []" "CreateCertificate_err ev = None"
  shows "SelfSignedCertificate ev cfg key =
     Inr (Cert_fields.extend (SelfSigned_der ev cfg key serial)
           \<lparr>Raw = DER_Certificate (SelfSigned_der ev cfg key serial)\<rparr>)"
  using assms
  by (simp add: SelfSignedCertificate_def x509_CreateCertificate_def Let_def SelfSigned_der_def written_def
       generateSubjectKeyID_rsa Public_def SelfSigned_template_def)

lemma SelfSigned_fields:
  assumes a: "SelfSignedCertificate ev cfg key = Inr cert"
  shows "\<exists>serial. rand_Int ev = Inr serial \<and> CreateCertificate_err ev = None \<and>
     CommonName (Subject cfg) \<noteq> [] \<and> OrganizationalUnit (Subject cfg) \<noteq> [] \<and>
     cert = Cert_fields.extend (SelfSigned_der ev cfg key serial)
           \<lparr>Raw = DER_Certificate (SelfSigned_der ev cfg key serial)\<rparr>"
proof (cases "rand_Int ev")
  case (Inl err)
  with a show ?thesis by (simp add: SelfSignedCertificate_def)
next
  case (Inr serial)
  show ?thesis
  proof (cases "CommonName (Subject cfg) = [] \<or> OrganizationalUnit (Subject cfg) = []")
    case True
    with a Inr show ?thesis by (auto simp: SelfSignedCertificate_def Let_def)
  next
    case False
    then have cn: "CommonName (Subject cfg) \<noteq> []" and ou: "OrganizationalUnit (Subject cfg) \<noteq> []"
      by simp_all
    show ?thesis
    proof (cases "CreateCertificate_err ev")
      case None
      from SelfSignedCertificate_ok [OF Inr cn ou None, of key] a Inr cn ou None
      show ?thesis by auto
    next
      case (Some err)
      with a Inr cn ou show ?thesis
        by (simp add: SelfSignedCertificate_def x509_CreateCertificate_def Let_def
             generateSubjectKeyID_rsa Public_def)
    qed
  qed
qed

lemma signedCertificate_ok:
  assumes "rand_Int ev = Inr serial" "cPublicKey caCert = Some (RSAPublicKey n e)"
    "CreateCertificate_err ev = None"
  shows "signedCertificate ev cfg csr key caCert caKey =
     Inr (Cert_fields.extend (signed_der ev cfg csr key caCert serial n e)
           \<lparr>Raw = DER_Certificate (signed_der ev cfg csr key caCert serial n e)\<rparr>)"
  using assms
  by (simp add: signedCertificate_def x509_CreateCertificate_def Let_def signed_der_def written_def
       generateSubjectKeyID_rsa Cert_fields.truncate_def signed_template_def)

lemma signedCertificate_panics:
  assumes "rand_Int ev = Inr serial" "\<forall>n e. cPublicKey caCert \<noteq> Some (RSAPublicKey n e)"
  shows "signedCertificate ev cfg csr key caCert caKey = Inl Panic"
proof (cases "cPublicKey caCert")
  case None
  with assms(1) show ?thesis by (simp add: signedCertificate_def)
next
  case (Some pub)
  with assms show ?thesis by (cases pub) (simp_all add: signedCertificate_def)
qed

lemma signed_fields:
  assumes a: "signedCertificate ev cfg csr key caCert caKey = Inr cert"
  shows "\<exists>serial n e. rand_Int ev = Inr serial \<and> cPublicKey caCert = Some (RSAPublicKey n e) \<and>
     CreateCertificate_err ev = None \<and>
     cert = Cert_fields.extend (signed_der ev cfg csr key caCert serial n e)
           \<lparr>Raw = DER_Certificate (signed_der ev cfg csr key caCert serial n e)\<rparr>"
proof (cases "rand_Int ev")
  case (Inl err)
  with a show ?thesis by (simp add: signedCertificate_def)
next
  case (Inr serial)
  show ?thesis
  proof (cases "\<exists>n e. cPublicKey caCert = Some (RSAPublicKey n e)")
    case False
    with signedCertificate_panics [OF Inr, of caCert cfg csr key caKey] a show ?thesis by simp
  next
    case True
    then obtain n e where pk: "cPublicKey caCert = Some (RSAPublicKey n e)" by blast
    show ?thesis
    proof (cases "CreateCertificate_err ev")
      case None
      from signedCertificate_ok [OF Inr pk None, of cfg csr key caKey] a Inr pk None
      show ?thesis by auto
    next
      case (Some err)
      with a Inr pk show ?thesis
        by (simp add: signedCertificate_def x509_CreateCertificate_def generateSubjectKeyID_rsa)
    qed
  qed
qed

text \<open>
  Claim C7.  With an empty common name or no organizational unit in the subject,
  \<^verbatim>\<open>SelfSignedCertificate\<close> returns no certificate: it fails with the invalid-subject
  error once the serial number is drawn (and with the error of the random source if that
  draw failed).
\<close>

theorem self_signed_rejects_unset_subject: 
  assumes "CommonName (Subject cfg) = [] \<or> OrganizationalUnit (Subject cfg) = []"
  shows "SelfSignedCertificate ev cfg key =
           (case rand_Int ev of Inl err \<Rightarrow> Inl err | Inr serial \<Rightarrow> Inl InvalidSubject)"
  using assms by (auto simp: SelfSignedCertificate_def Let_def split: sum.splits)

lemma ext_sel:
  "cDNSNames (Cert_fields.extend f r) = cDNSNames f"
  "cIPAddresses (Cert_fields.extend f r) = cIPAddresses f"
  "cExtKeyUsage (Cert_fields.extend f r) = cExtKeyUsage f"
  "cKeyUsage (Cert_fields.extend f r) = cKeyUsage f"
  "cIsCA (Cert_fields.extend f r) = cIsCA f"
  "cNotAfter (Cert_fields.extend f r) = cNotAfter f"
  "cNotBefore (Cert_fields.extend f r) = cNotBefore f"
  "cSubject (Cert_fields.extend f r) = cSubject f"
  "cIssuer (Cert_fields.extend f r) = cIssuer f"
  "cSubjectKeyId (Cert_fields.extend f r) = cSubjectKeyId f"
  "cPublicKey (Cert_fields.extend f r) = cPublicKey f"
  "cSerialNumber (Cert_fields.extend f r) = cSerialNumber f"
  "cVersion (Cert_fields.extend f r) = cVersion f"
  "cBasicConstraintsValid (Cert_fields.extend f r) = cBasicConstraintsValid f"
  by (simp_all add: Cert_fields.extend_def)


text \<open>
  Claim C2.  A certificate returned by \<^verbatim>\<open>SelfSignedCertificate\<close> has no DNS names, no IP
  addresses and no extended key usages, whatever the configuration holds; a certificate
  returned by \<^verbatim>\<open>signedCertificate\<close> has the DNS names and IP addresses of the request and
  the extended key usages of the configuration.
\<close>

theorem self_signed_has_no_alternative_names:
  "(SelfSignedCertificate ev cfg key = Inr cert \<longrightarrow>
      cDNSNames cert = [] \<and> cIPAddresses cert = [] \<and> cExtKeyUsage cert = []) \<and>
   (signedCertificate ev cfg csr key caCert caKey = Inr cert' \<longrightarrow>
      cDNSNames cert' = rDNSNames csr \<and> cIPAddresses cert' = rIPAddresses csr \<and>
      cExtKeyUsage cert' = ExtKeyUsages cfg)"
proof (intro conjI impI)
  assume a: "SelfSignedCertificate ev cfg key = Inr cert"
  from SelfSigned_fields [OF a] obtain serial where
    c: "cert = Cert_fields.extend (SelfSigned_der ev cfg key serial)
           \<lparr>Raw = DER_Certificate (SelfSigned_der ev cfg key serial)\<rparr>" by blast
  show "cDNSNames cert = []" "cIPAddresses cert = []" "cExtKeyUsage cert = []"
    unfolding c by (simp_all add: ext_sel SelfSigned_der_def written_def SelfSigned_template_def)
next
  assume a: "signedCertificate ev cfg csr key caCert caKey = Inr cert'"
  from signed_fields [OF a] obtain serial n e where
    c: "cert' = Cert_fields.extend (signed_der ev cfg csr key caCert serial n e)
           \<lparr>Raw = DER_Certificate (signed_der ev cfg csr key caCert serial n e)\<rparr>" by blast
  show "cDNSNames cert' = rDNSNames csr" "cIPAddresses cert' = rIPAddresses csr"
      "cExtKeyUsage cert' = ExtKeyUsages cfg"
    unfolding c by (simp_all add: ext_sel signed_der_def written_def signed_template_def)
qed


text \<open>
  Claim C3.  In a certificate returned by \<^verbatim>\<open>signedCertificate\<close> the subject key identifier
  is the SHA-1 digest, 20 bytes long, of the wire encoding of the CA certificate's RSA
  public key.  It is what \<^verbatim>\<open>generateSubjectKeyID\<close> yields on that key, and it is the same
  whichever key the certificate is issued for.
\<close>

theorem signed_subject_key_id_is_of_ca_key:
  assumes "signedCertificate ev cfg csr key caCert caKey = Inr cert"
  shows "(\<exists>n e. cPublicKey caCert = Some (RSAPublicKey n e) \<and>
            cSubjectKeyId cert =
              sha1_Sum (der_tlv 0x30 (der_tlv 0x02 (int_bytes n) @ der_tlv 0x02 (int_bytes e)))) \<and>
         generateSubjectKeyID (the (cPublicKey caCert)) = Inr (cSubjectKeyId cert) \<and>
         length (cSubjectKeyId cert) = 20 \<and>
         (\<forall>key'. \<exists>cert'. signedCertificate ev cfg csr key' caCert caKey = Inr cert' \<and>
                    cSubjectKeyId cert' = cSubjectKeyId cert)"
proof -
  from signed_fields [OF assms] obtain serial n e where
    r: "rand_Int ev = Inr serial" and pk: "cPublicKey caCert = Some (RSAPublicKey n e)" and
    ok: "CreateCertificate_err ev = None" and
    c: "cert = Cert_fields.extend (signed_der ev cfg csr key caCert serial n e)
           \<lparr>Raw = DER_Certificate (signed_der ev cfg csr key caCert serial n e)\<rparr>" by blast
  have ski: "cSubjectKeyId cert =
      sha1_Sum (der_tlv 0x30 (der_tlv 0x02 (int_bytes n) @ der_tlv 0x02 (int_bytes e)))"
    unfolding c by (simp add: ext_sel signed_der_def written_def)
  have other: "\<exists>cert'. signedCertificate ev cfg csr key' caCert caKey = Inr cert' \<and>
                    cSubjectKeyId cert' = cSubjectKeyId cert" for key'
    unfolding signedCertificate_ok [OF r pk ok] ski by (simp add: ext_sel signed_der_def written_def)
  from pk ski other show ?thesis
    by (simp add: generateSubjectKeyID_rsa sha1_Sum_length)
qed

text \<open>
  Claim C4, as amended.  A certificate returned by \<^verbatim>\<open>signedCertificate\<close> has the
  \<^verbatim>\<open>NotBefore\<close> of the CA certificate without its fraction of a second, whatever the clock
  reads: exactly the CA certificate's \<^verbatim>\<open>NotBefore\<close> when that is a whole second, as in every
  parsed certificate.  Its \<^verbatim>\<open>NotAfter\<close> is the clock reading plus the configured validity
  without its fraction of a second, so less than a second earlier than that sum.
\<close>

theorem signed_validity_window:
  assumes "signedCertificate ev cfg csr key caCert caKey = Inr cert"
  shows "cNotBefore cert = der_time (cNotBefore caCert) \<and>
         (cNotBefore caCert mod 1000000000 = 0 \<longrightarrow> cNotBefore cert = cNotBefore caCert) \<and>
         cNotAfter cert = der_time (time_Now ev 0 + sint (Validity cfg)) \<and>
         cNotAfter cert \<le> time_Now ev 0 + sint (Validity cfg) \<and>
         time_Now ev 0 + sint (Validity cfg) < cNotAfter cert + 1000000000"
proof -
  from signed_fields [OF assms] obtain serial n e where
    c: "cert = Cert_fields.extend (signed_der ev cfg csr key caCert serial n e)
           \<lparr>Raw = DER_Certificate (signed_der ev cfg csr key caCert serial n e)\<rparr>" by blast
  have b: "cNotBefore cert = der_time (cNotBefore caCert)"
    unfolding c by (simp add: ext_sel signed_der_def written_def signed_template_def)
  have a: "cNotAfter cert = der_time (time_Now ev 0 + sint (Validity cfg))"
    unfolding c by (simp add: ext_sel signed_der_def written_def signed_template_def time_Add_def)
  have lo: "der_time t \<le> t" and hi: "t < der_time t + 1000000000" for t
    by (simp_all add: der_time_def)
  from a b lo [of "time_Now ev 0 + sint (Validity cfg)"] hi [of "time_Now ev 0 + sint (Validity cfg)"]
  show ?thesis by (simp add: der_time_def)
qed

text \<open>
  Claim C10.  When the CA certificate's public key is not an RSA key, \<^verbatim>\<open>signedCertificate\<close>
  panics as soon as the serial number is drawn; it does not return an error.  The panic
  passes through \<^verbatim>\<open>GenerateSignedCertificate\<close> once the key and the request are made.
\<close>

theorem signed_panics_on_non_rsa_ca_key:
  assumes "\<forall>n e. cPublicKey caCert \<noteq> Some (RSAPublicKey n e)" and "rand_Int ev = Inr serial"
  shows "signedCertificate ev cfg csr key caCert caKey = Inl Panic \<and>
         (rsa_GenerateKey ev = Inr key' \<and> CreateCertificateRequest_err ev = None \<longrightarrow>
            GenerateSignedCertificate ev caKey caCert cfg = Inl Panic)"
proof (intro conjI impI)
  show "signedCertificate ev cfg csr key caCert caKey = Inl Panic"
    using assms(2,1) by (rule signedCertificate_panics)
next
  assume a: "rsa_GenerateKey ev = Inr key' \<and> CreateCertificateRequest_err ev = None"
  then show "GenerateSignedCertificate ev caKey caCert cfg = Inl Panic"
    by (simp add: GenerateSignedCertificate_def PrivateKey_def x509_CreateCertificateRequest_def
          signedCertificate_panics [OF assms(2,1)])
qed



lemma ValidateKeyPair_parsed:
  "parsePemKeypair pemKey pemCertificate = Inr (privKey, cert) \<Longrightarrow>
     ValidateKeyPair now pemKey pemCertificate cfg m = NewAggregate (findings now cert cfg m)"
  by (simp add: ValidateKeyPair_def)

lemma records_NewAggregate:
  "records_validity_failure (NewAggregate errs) = list_ex is_validity_finding errs"
  by (cases errs) (simp_all add: NewAggregate_def)

lemma complaints_NewAggregate: "complaints (NewAggregate errs) = errs"
  by (cases errs) (simp_all add: NewAggregate_def)

lemma validity_finding_iff:
  "list_ex is_validity_finding (findings now cert cfg m) \<longleftrightarrow>
     max (- (2 ^ 63)) (min (2 ^ 63 - 1) (cNotAfter cert - now)) < sint m"
  by (simp add: findings_def Let_def word_sless_alt sint_time_Until)

lemma sint_64_bounds: "- (2 ^ 63) \<le> sint (m :: 64 word)" "sint (m :: 64 word) < 2 ^ 63"
  using sint_greater_eq [of m] sint_less [of m] by simp_all

text \<open>
  Claim C6, as amended.  On a key pair that parses, \<^verbatim>\<open>ValidateKeyPair\<close> records a
  remaining-validity failure only when the clock is past \<^verbatim>\<open>NotAfter\<close> minus the minimum
  remaining validity, and then it does so whenever the minimum is not the least duration
  or the certificate did not expire more than \<open>2 ^ 63\<close> nanoseconds ago; at that instant
  itself it records none.
\<close>

theorem validate_remaining_validity_boundary:
  assumes "parsePemKeypair pemKey pemCertificate = Inr (privKey, cert)"
  shows "(records_validity_failure (ValidateKeyPair now pemKey pemCertificate cfg m)
            \<longrightarrow> now > cNotAfter cert - sint m) \<and>
         (now > cNotAfter cert - sint m \<and>
            (- (2 ^ 63) < sint m \<or> - (2 ^ 63) \<le> cNotAfter cert - now)
            \<longrightarrow> records_validity_failure (ValidateKeyPair now pemKey pemCertificate cfg m)) \<and>
         (now = cNotAfter cert - sint m \<longrightarrow>
            \<not> records_validity_failure (ValidateKeyPair now pemKey pemCertificate cfg m))"
  unfolding ValidateKeyPair_parsed [OF assms] records_NewAggregate validity_finding_iff
  using sint_64_bounds [of m] by (auto simp: max_def min_def)

lemma findings_distinct: "distinct (findings now cert cfg m)"
  by (simp add: findings_def Let_def)

lemma list_all2_IP_Equal:
  "list_all2 IP_Equal xs ys \<Longrightarrow> map san_ip xs = map san_ip ys"
  by (induction rule: list_all2_induct) (simp_all add: IP_Equal_iff)

lemma IP_same_addresses:
  assumes "list_all2 IP_Equal (sort x) (sort y)"
  shows "mset (map san_ip x) = mset (map san_ip y)"
proof -
  have "mset (map san_ip (sort x)) = mset (map san_ip (sort y))"
    using list_all2_IP_Equal [OF assms] by simp
  then show ?thesis by simp
qed

lemma subject_differs_Diff: "subject_differs x (Subject cfg) \<Longrightarrow> subjectDiff x cfg"
  by (auto simp: subject_differs_def subjectDiff_def Let_def Diff_SortSlices_def Diff_slices_def
      sort_neq_iff_mset)

lemma count_le:
  "(a1 \<longrightarrow> b1) \<Longrightarrow> (a2 \<longrightarrow> b2) \<Longrightarrow> (a3 \<longrightarrow> b3) \<Longrightarrow> (a4 \<longrightarrow> b4) \<Longrightarrow> (a5 \<longrightarrow> b5) \<Longrightarrow> (a6 \<longrightarrow> b6) \<Longrightarrow>
     length (filter id [a1, a2, a3, a4, a5, a6]) \<le>
     (if b1 then 1 else 0) + (if b2 then 1 else 0) + (if b3 then 1 else 0) +
     (if b4 then 1 else 0) + (if b5 then 1 else 0) + (if b6 then (1::nat) else 0)"
  by (cases a1; cases a2; cases a3; cases a4; cases a5; cases a6) simp_all

lemma findings_field_length:
  "length (filter is_field_finding (findings now cert cfg m)) =
     (if Diff_SortSlices (cDNSNames cert = []) (cDNSNames cert)
           (is_nil cfg DNSNames_field (DNSNames cfg)) (DNSNames cfg) then 1 else 0) +
     (if Diff_SortSlices_IP (cIPAddresses cert = []) (cIPAddresses cert)
           (is_nil cfg IPAddresses_field (IPAddresses cfg)) (IPAddresses cfg) then 1 else 0) +
     (if cKeyUsage cert \<noteq> KeyUsages cfg then 1 else 0) +
     (if Diff_SortSlices (cExtKeyUsage cert = []) (cExtKeyUsage cert)
           (is_nil cfg ExtKeyUsages_field (ExtKeyUsages cfg)) (ExtKeyUsages cfg) then 1 else 0) +
     (if subjectDiff (cSubject cert) cfg then 1 else 0) +
     (if cIsCA cert \<noteq> IsCA cfg then (1::nat) else 0)"
  by (simp add: findings_def Let_def)

lemma findings_field_count:
  "differing_fields cert cfg \<le> length (filter is_field_finding (findings now cert cfg m))"
  unfolding differing_fields_def findings_field_length
  by (rule count_le)
     (auto simp: Diff_SortSlices_def Diff_SortSlices_IP_def sort_neq_iff_mset
        dest: IP_same_addresses subject_differs_Diff)

text \<open>
  Claim C5.  When key and certificate parse and correspond, the complaints of
  \<^verbatim>\<open>ValidateKeyPair\<close> are pairwise distinct and those about fields are at least as many as
  the fields in which certificate and configuration differ; if there is any, the result is
  the aggregate of all complaints.  When the modulus of the certificate's key is not that
  of the private key, the result is the key-certificate mismatch alone.
\<close>

theorem validate_reports_every_difference:
  "(parsePemKeypair pemKey pemCertificate = Inr (privKey, cert) \<longrightarrow>
      distinct (complaints (ValidateKeyPair now pemKey pemCertificate cfg m)) \<and>
      differing_fields cert cfg
        \<le> length (filter is_field_finding (complaints (ValidateKeyPair now pemKey pemCertificate cfg m))) \<and>
      (0 < differing_fields cert cfg \<longrightarrow>
         ValidateKeyPair now pemKey pemCertificate cfg m
           = Some (Aggregate (complaints (ValidateKeyPair now pemKey pemCertificate cfg m))))) \<and>
   (PemToPrivateKey pemKey = Inr privKey' \<and> PemToCertificate pemCertificate = Inr cert' \<and>
    cPublicKey cert' = Some (RSAPublicKey n e) \<and> n \<noteq> N privKey' \<longrightarrow>
      ValidateKeyPair now pemKey pemCertificate cfg m
        = Some (Wrap ''failed to parse keypair'' KeyCertificateMismatch) \<and>
      complaints (ValidateKeyPair now pemKey pemCertificate cfg m) = [])"
proof (intro conjI impI)
  assume p: "parsePemKeypair pemKey pemCertificate = Inr (privKey, cert)"
  show "distinct (complaints (ValidateKeyPair now pemKey pemCertificate cfg m))"
    unfolding ValidateKeyPair_parsed [OF p] complaints_NewAggregate by (rule findings_distinct)
  show "differing_fields cert cfg
        \<le> length (filter is_field_finding (complaints (ValidateKeyPair now pemKey pemCertificate cfg m)))"
    unfolding ValidateKeyPair_parsed [OF p] complaints_NewAggregate by (rule findings_field_count)
  assume "0 < differing_fields cert cfg"
  then have "findings now cert cfg m \<noteq> []"
    using findings_field_count [of cert cfg now m] by auto
  then show "ValidateKeyPair now pemKey pemCertificate cfg m
           = Some (Aggregate (complaints (ValidateKeyPair now pemKey pemCertificate cfg m)))"
    unfolding ValidateKeyPair_parsed [OF p] complaints_NewAggregate by (simp add: NewAggregate_def)
next
  assume a: "PemToPrivateKey pemKey = Inr privKey' \<and> PemToCertificate pemCertificate = Inr cert' \<and>
    cPublicKey cert' = Some (RSAPublicKey n e) \<and> n \<noteq> N privKey'"
  then have v: "ValidateKeyPair now pemKey pemCertificate cfg m
        = Some (Wrap ''failed to parse keypair'' KeyCertificateMismatch)"
    by (simp add: ValidateKeyPair_def parsePemKeypair_def)
  then show "ValidateKeyPair now pemKey pemCertificate cfg m
        = Some (Wrap ''failed to parse keypair'' KeyCertificateMismatch)" .
  from v show "complaints (ValidateKeyPair now pemKey pemCertificate cfg m) = []" by simp
qed

lemma PrivateKeyToPem_ok:
  "2 \<le> length (Primes key) \<Longrightarrow>
     PrivateKeyToPem key = Inr [Armour \<lparr>Type = ''RSA PRIVATE KEY'', Bytes = DER_PKCS1PrivateKey key\<rparr>]"
  by (simp add: PrivateKeyToPem_def x509_MarshalPKCS1PrivateKey_def pem_EncodeToMemory_def)

lemma rsa_Validate_primes: "rsa_Validate key \<Longrightarrow> 2 \<le> length (Primes key)"
  by (simp add: rsa_Validate_def)

lemma PemToPrivateKey_armour:
  "rsa_Validate key \<Longrightarrow>
     PemToPrivateKey [Armour \<lparr>Type = t, Bytes = DER_PKCS1PrivateKey key\<rparr>] = Inr key"
  by (simp add: PemToPrivateKey_def)

lemma parsed_cert_Raw:
  "x509_ParseCertificate der = Inr cert \<Longrightarrow> x509_ParseCertificate (Raw cert) = Inr cert"
  by (cases der) (auto simp: Cert_fields.extend_def)

lemma PemToCertificate_CertToPem:
  "x509_ParseCertificate (Raw cert) = Inr cert \<Longrightarrow> PemToCertificate (CertToPem cert) = Inr cert"
  by (simp add: PemToCertificate_def CertToPem_def pem_EncodeToMemory_def)

lemma issued_Raw:
  "x509_ParseCertificate (Raw (Cert_fields.extend f \<lparr>Raw = DER_Certificate f\<rparr>)) =
     Inr (Cert_fields.extend f \<lparr>Raw = DER_Certificate f\<rparr>)"
  by (simp add: Cert_fields.extend_def)

lemma parsed_csr_Raw:
  "x509_ParseCertificateRequest der = Inr csr \<Longrightarrow> x509_ParseCertificateRequest (rRaw csr) = Inr csr"
  by (cases der) (auto simp: CSR_fields.extend_def)

text \<open>
  Claim C8.  Decoding what was encoded gives the value back: a valid RSA private key
  through \<^verbatim>\<open>PrivateKeyToPem\<close> and \<^verbatim>\<open>PemToPrivateKey\<close>; an issued or parsed certificate
  through \<^verbatim>\<open>CertToPem\<close> and \<^verbatim>\<open>PemToCertificate\<close>; a parsed certificate request through
  \<^verbatim>\<open>CSRToPem\<close>, \<^verbatim>\<open>pem.Decode\<close> and \<^verbatim>\<open>x509.ParseCertificateRequest\<close> (the package has no
  decoder of its own for requests).
\<close>

theorem pem_round_trip:
  "(rsa_Validate key \<longrightarrow>
      (\<exists>pemKey. PrivateKeyToPem key = Inr pemKey \<and> PemToPrivateKey pemKey = Inr key)) \<and>
   (SelfSignedCertificate ev cfg key1 = Inr cert1 \<longrightarrow> PemToCertificate (CertToPem cert1) = Inr cert1) \<and>
   (signedCertificate ev cfg csr1 key1 caCert caKey = Inr cert2 \<longrightarrow>
      PemToCertificate (CertToPem cert2) = Inr cert2) \<and>
   (x509_ParseCertificate der = Inr cert \<longrightarrow> PemToCertificate (CertToPem cert) = Inr cert) \<and>
   (x509_ParseCertificateRequest der' = Inr csr \<longrightarrow>
      (\<exists>block. pem_Decode (CSRToPem csr) = Some block \<and> Type block = ''CERTIFICATE REQUEST'' \<and>
         x509_ParseCertificateRequest (Bytes block) = Inr csr))"
proof (intro conjI impI)
  assume v: "rsa_Validate key"
  from PrivateKeyToPem_ok [OF rsa_Validate_primes [OF v]] PemToPrivateKey_armour [OF v]
  show "\<exists>pemKey. PrivateKeyToPem key = Inr pemKey \<and> PemToPrivateKey pemKey = Inr key" by simp
next
  assume a: "SelfSignedCertificate ev cfg key1 = Inr cert1"
  from SelfSigned_fields [OF a] obtain serial where
    c: "cert1 = Cert_fields.extend (SelfSigned_der ev cfg key1 serial)
           \<lparr>Raw = DER_Certificate (SelfSigned_der ev cfg key1 serial)\<rparr>" by blast
  show "PemToCertificate (CertToPem cert1) = Inr cert1"
    unfolding c by (rule PemToCertificate_CertToPem) (rule issued_Raw)
next
  assume a: "signedCertificate ev cfg csr1 key1 caCert caKey = Inr cert2"
  from signed_fields [OF a] obtain serial n e where
    c: "cert2 = Cert_fields.extend (signed_der ev cfg csr1 key1 caCert serial n e)
           \<lparr>Raw = DER_Certificate (signed_der ev cfg csr1 key1 caCert serial n e)\<rparr>" by blast
  show "PemToCertificate (CertToPem cert2) = Inr cert2"
    unfolding c by (rule PemToCertificate_CertToPem) (rule issued_Raw)
next
  assume "x509_ParseCertificate der = Inr cert"
  then show "PemToCertificate (CertToPem cert) = Inr cert"
    by (intro PemToCertificate_CertToPem parsed_cert_Raw)
next
  assume "x509_ParseCertificateRequest der' = Inr csr"
  from parsed_csr_Raw [OF this]
  show "\<exists>block. pem_Decode (CSRToPem csr) = Some block \<and> Type block = ''CERTIFICATE REQUEST'' \<and>
         x509_ParseCertificateRequest (Bytes block) = Inr csr"
    by (simp add: CSRToPem_def pem_EncodeToMemory_def)
qed

text \<open>
  Claim C9.  Encoding to PEM does not fail: \<^verbatim>\<open>PrivateKeyToPem\<close> returns PEM data for every
  key that has its two primes, \<^verbatim>\<open>PublicKeyToPem\<close> returns PEM data and no error for every
  RSA public key, and \<^verbatim>\<open>CertToPem\<close> and \<^verbatim>\<open>CSRToPem\<close> always return one block holding the
  raw bytes.
\<close>

theorem pem_encoding_total:
  "(2 \<le> length (Primes key) \<longrightarrow> (\<exists>pemKey. PrivateKeyToPem key = Inr pemKey)) \<and>
   (\<exists>pemPub. PublicKeyToPem (RSAPublicKey n e) = Inr pemPub) \<and>
   pem_Decode (CertToPem cert) = Some \<lparr>Type = ''CERTIFICATE'', Bytes = Raw cert\<rparr> \<and>
   pem_Decode (CSRToPem csr) = Some \<lparr>Type = ''CERTIFICATE REQUEST'', Bytes = rRaw csr\<rparr>"
  by (simp add: PrivateKeyToPem_ok PublicKeyToPem_def x509_MarshalPKIXPublicKey_def
      CertToPem_def CSRToPem_def pem_EncodeToMemory_def)






lemma ExtraNames_fill: "ExtraNames (foldl fill_atv m xs) = ExtraNames m"
  by (induction xs arbitrary: m) (simp_all add: fill_atv_def Let_def)

lemma ExtraNames_parsed: "ExtraNames (parsed_Name n) = []"
  by (simp add: parsed_Name_def FillFromRDNSequence_def ExtraNames_fill zero_Name_def)

lemma subjectDiff_Names: "subjectDiff (n\<lparr>Names := x\<rparr>) cfg = subjectDiff n cfg"
  by (simp add: subjectDiff_def)

lemma subjectDiff_parsed:
  "ExtraNames n = [] \<Longrightarrow> subjectDiff (parsed_Name n) cfg = subjectDiff n cfg"
  by (simp add: parsed_Name_plain subjectDiff_Names)










lemma sample_key_valid: "rsa_Validate sample_key"
  by (simp add: rsa_Validate_def sample_key_def)

lemma sample_key_pem: "PrivateKeyToPem sample_key = Inr sample_key_pem"
  by (simp add: PrivateKeyToPem_ok sample_key_def sample_key_pem_def)

lemma sample_subjects:
  "Subject sample_cfg = sample_subject" "Subject sample_cfg_san = sample_subject"
  "Subject sample_cfg_expired = sample_subject" "Subject sample_cfg_ku512 = sample_subject"
  "Subject sample_cfg_emptydns = sample_subject"
  by (simp_all add: sample_cfg_def sample_cfg_san_def sample_cfg_expired_def sample_cfg_ku512_def
      sample_cfg_emptydns_def)

lemma sample_SelfSigned:
  assumes "Subject cfg = sample_subject"
  shows "SelfSignedCertificate sample_env cfg sample_key = Inr (sample_selfsigned cfg)"
  unfolding sample_selfsigned_def
  by (rule SelfSignedCertificate_ok) (simp_all add: sample_env_def assms sample_subject_def)


lemma sample_caCert_key: "cPublicKey sample_caCert = Some (RSAPublicKey 3127 3)"
  by (simp add: sample_caCert_def Public_def sample_caKey_def)

lemma sample_signedCertificate:
  "signedCertificate sample_env cfg (sample_csr cfg) sample_key sample_caCert sample_caKey =
     Inr (sample_signed cfg)"
  unfolding sample_signed_def
  by (rule signedCertificate_ok) (simp_all add: sample_env_def sample_caCert_key)


lemma sample_parse_selfsigned:
  "parsePemKeypair sample_key_pem (CertToPem (sample_selfsigned cfg)) =
     Inr (sample_key, sample_selfsigned cfg)"
  unfolding parsePemKeypair_def sample_key_pem_def sample_selfsigned_def
    PemToPrivateKey_armour [OF sample_key_valid] PemToCertificate_CertToPem [OF issued_Raw]
  by (simp add: ext_sel SelfSigned_der_def written_def Public_def)

lemma sample_parse_signed:
  "parsePemKeypair sample_key_pem (CertToPem (sample_signed cfg)) =
     Inr (sample_key, sample_signed cfg)"
  unfolding parsePemKeypair_def sample_key_pem_def sample_signed_def
    PemToPrivateKey_armour [OF sample_key_valid] PemToCertificate_CertToPem [OF issued_Raw]
  by (simp add: ext_sel signed_der_def written_def Public_def)

lemma sample_parse_old:
  "parsePemKeypair sample_key_pem (CertToPem sample_old) = Inr (sample_key, sample_old)"
  unfolding parsePemKeypair_def sample_key_pem_def sample_old_def
    PemToPrivateKey_armour [OF sample_key_valid] PemToCertificate_CertToPem [OF issued_Raw]
  by (simp add: ext_sel sample_old_fields_def signed_der_def written_def Public_def)

lemma sample_signed_fields:
  "cDNSNames (sample_signed cfg) = DNSNames cfg"
  "cExtKeyUsage (sample_signed cfg) = ExtKeyUsages cfg"
  "cIPAddresses (sample_signed cfg) = map san_ip (IPAddresses cfg)"
  "cKeyUsage (sample_signed cfg) = KeyUsages cfg mod 512"
  "cSubject (sample_signed cfg) = parsed_Name (parsed_Name (Subject cfg))"
  "cNotAfter (sample_signed cfg) = der_time (1700000000468340546 + sint (Validity cfg))"
  "cNotBefore (sample_signed cfg) = 1600000000000000000"
  "cIsCA (sample_signed cfg) = IsCA cfg"
  by (simp_all add: sample_signed_def ext_sel signed_der_def written_def signed_template_def
      sample_csr_def csr_of_def CSR_fields.extend_def sample_env_def time_Add_def
      sample_caCert_def der_time_def)

lemma sample_selfsigned_fields:
  "cDNSNames (sample_selfsigned cfg) = []"
  "cExtKeyUsage (sample_selfsigned cfg) = []"
  "cIPAddresses (sample_selfsigned cfg) = []"
  "cKeyUsage (sample_selfsigned cfg) = KeyUsages cfg mod 512"
  "cSubject (sample_selfsigned cfg) = parsed_Name (Subject cfg)"
  "cNotAfter (sample_selfsigned cfg) = der_time (1700000000468340546 + sint (Validity cfg))"
  "cIsCA (sample_selfsigned cfg) = IsCA cfg"
  by (simp_all add: sample_selfsigned_def ext_sel SelfSigned_der_def written_def
      SelfSigned_template_def sample_env_def time_Add_def)

lemma sample_subject_same:
  assumes "Subject cfg = sample_subject"
    and "EmptyNotNil cfg \<subseteq> {DNSNames_field, ExtKeyUsages_field, IPAddresses_field}"
  shows "\<not> subjectDiff (parsed_Name (Subject cfg)) cfg"
    and "\<not> subjectDiff (parsed_Name (parsed_Name (Subject cfg))) cfg"
proof -
  have e: "ExtraNames (Subject cfg) = []"
    by (simp add: assms(1) sample_subject_def zero_Name_def)
  have "\<not> subjectDiff (Subject cfg) cfg"
    using assms(2)
    by (auto simp: subjectDiff_def Let_def assms(1) sample_subject_def zero_Name_def is_nil_def
        Diff_SortSlices_def Diff_slices_def)
  then show "\<not> subjectDiff (parsed_Name (Subject cfg)) cfg"
    by (simp add: subjectDiff_parsed [OF e])
  then show "\<not> subjectDiff (parsed_Name (parsed_Name (Subject cfg))) cfg"
    by (simp add: subjectDiff_parsed [OF ExtraNames_parsed])
qed

lemma sample_san_ip:
  "san_ip [0, 0, 0, 0, 0, 0, 0, 0, 0, 0, 0xff, 0xff, 10, 0, 0, 1] = [10, 0, 0, 1]"
  by (simp add: san_ip_def To4_def v4InV6Prefix_def)





lemma sample_selfsigned_san_findings:
  "findings 1700000002468340546 (sample_selfsigned sample_cfg_san) sample_cfg_san 0 =
     [DNSNamesDiffer, ExtKeyUsagesDiffer, IPAddressesDiffer]"
  unfolding findings_def sample_selfsigned_fields
  using sample_subject_same(1) [of sample_cfg_san]
  by (simp add: sample_cfg_san_def Diff_SortSlices_def Diff_SortSlices_IP_def is_nil_def
      der_time_def Let_def word_sless_alt sint_time_Until)







theorem self_signed_has_no_alternative_names_witness:
  "SelfSignedCertificate sample_env sample_cfg_san sample_key = Inr (sample_selfsigned sample_cfg_san) \<and>
   cDNSNames (sample_selfsigned sample_cfg_san) = [] \<and>
   cIPAddresses (sample_selfsigned sample_cfg_san) = [] \<and>
   cExtKeyUsage (sample_selfsigned sample_cfg_san) = [] \<and>
   signedCertificate sample_env sample_cfg_san (sample_csr sample_cfg_san) sample_key
       sample_caCert sample_caKey = Inr (sample_signed sample_cfg_san) \<and>
   cDNSNames (sample_signed sample_cfg_san) = [''kube-apiserver'', ''api.example.com''] \<and>
   cIPAddresses (sample_signed sample_cfg_san) = [[10, 0, 0, 1]] \<and>
   cExtKeyUsage (sample_signed sample_cfg_san) = [2, 1]"
  using self_signed_has_no_alternative_names [of sample_env sample_cfg_san sample_key "sample_selfsigned sample_cfg_san"
              "sample_csr sample_cfg_san" sample_caCert sample_caKey "sample_signed sample_cfg_san"]
    sample_SelfSigned [OF sample_subjects(2)] sample_signedCertificate [of sample_cfg_san]
  by (simp add: sample_csr_def csr_of_def CSR_fields.extend_def sample_cfg_san_def sample_san_ip)

theorem signed_subject_key_id_is_of_ca_key_witness:
  "signedCertificate sample_env sample_cfg_san (sample_csr sample_cfg_san) sample_key
       sample_caCert sample_caKey = Inr (sample_signed sample_cfg_san) \<and>
   cPublicKey sample_caCert = Some (RSAPublicKey 3127 3) \<and>
   cSubjectKeyId (sample_signed sample_cfg_san) =
     sha1_Sum (der_tlv 0x30 (der_tlv 0x02 (int_bytes 3127) @ der_tlv 0x02 (int_bytes 3))) \<and>
   length (cSubjectKeyId (sample_signed sample_cfg_san)) = 20"
  using signed_subject_key_id_is_of_ca_key [OF sample_signedCertificate [of sample_cfg_san]] sample_caCert_key
    sample_signedCertificate [of sample_cfg_san]
  by auto


theorem signed_validity_window_counterexample:
  "signedCertificate sample_env sample_cfg_san (sample_csr sample_cfg_san) sample_key
       sample_caCert sample_caKey = Inr (sample_signed sample_cfg_san) \<and>
   time_Now sample_env 0 + sint (Validity sample_cfg_san) = 1700003600468340546 \<and>
   cNotAfter (sample_signed sample_cfg_san) = 1700003600000000000 \<and>
   cNotAfter (sample_signed sample_cfg_san) \<noteq> time_Now sample_env 0 + sint (Validity sample_cfg_san)"
  by (simp add: sample_signedCertificate sample_signed_fields der_time_def)
     (simp add: sample_env_def sample_cfg_san_def)

theorem signed_validity_window_witness:
  "signedCertificate sample_env sample_cfg_san (sample_csr sample_cfg_san) sample_key
       sample_caCert sample_caKey = Inr (sample_signed sample_cfg_san) \<and>
   cNotBefore sample_caCert mod 1000000000 = 0 \<and>
   cNotBefore (sample_signed sample_cfg_san) = 1600000000000000000 \<and>
   cNotAfter (sample_signed sample_cfg_san) = 1700003600000000000"
  using signed_validity_window [OF sample_signedCertificate [of sample_cfg_san]]
    sample_signedCertificate [of sample_cfg_san]
  by (simp add: sample_caCert_def sample_env_def sample_cfg_san_def der_time_def)

theorem validate_reports_every_difference_witness:
  "parsePemKeypair sample_key_pem (CertToPem (sample_selfsigned sample_cfg_san)) =
     Inr (sample_key, sample_selfsigned sample_cfg_san) \<and>
   differing_fields (sample_selfsigned sample_cfg_san) sample_cfg_san = 3 \<and>
   ValidateKeyPair 1700000002468340546 sample_key_pem
       (CertToPem (sample_selfsigned sample_cfg_san)) sample_cfg_san 0 =
     Some (Aggregate [DNSNamesDiffer, ExtKeyUsagesDiffer, IPAddressesDiffer]) \<and>
   PemToPrivateKey sample_caKey_pem = Inr sample_caKey \<and>
   PemToCertificate (CertToPem (sample_selfsigned sample_cfg_san)) =
     Inr (sample_selfsigned sample_cfg_san) \<and>
   cPublicKey (sample_selfsigned sample_cfg_san) = Some (RSAPublicKey 3233 17) \<and>
   3233 \<noteq> N sample_caKey \<and>
   ValidateKeyPair 1700000002468340546 sample_caKey_pem
       (CertToPem (sample_selfsigned sample_cfg_san)) sample_cfg_san 0 =
     Some (Wrap ''failed to parse keypair'' KeyCertificateMismatch)"
proof -
  have sd: "\<not> subject_differs (parsed_Name (Subject sample_cfg_san)) (Subject sample_cfg_san)"
    by (simp add: sample_subjects parsed_Name_plain subject_differs_def sample_subject_def
        zero_Name_def)
  have d: "differing_fields (sample_selfsigned sample_cfg_san) sample_cfg_san = 3"
    unfolding differing_fields_def sample_selfsigned_fields using sd
    by (simp add: sample_cfg_san_def)
  have k: "PemToPrivateKey sample_caKey_pem = Inr sample_caKey"
    by (simp add: PemToPrivateKey_def sample_caKey_pem_def rsa_Validate_def sample_caKey_def)
  have c: "PemToCertificate (CertToPem (sample_selfsigned sample_cfg_san)) =
     Inr (sample_selfsigned sample_cfg_san)"
    unfolding sample_selfsigned_def by (rule PemToCertificate_CertToPem [OF issued_Raw])
  have p: "cPublicKey (sample_selfsigned sample_cfg_san) = Some (RSAPublicKey 3233 17)"
    by (simp add: sample_selfsigned_def ext_sel SelfSigned_der_def written_def Public_def
        sample_key_def)
  have n: "3233 \<noteq> N sample_caKey" by (simp add: sample_caKey_def)
  have v: "ValidateKeyPair 1700000002468340546 sample_key_pem
       (CertToPem (sample_selfsigned sample_cfg_san)) sample_cfg_san 0 =
     Some (Aggregate [DNSNamesDiffer, ExtKeyUsagesDiffer, IPAddressesDiffer])"
    unfolding ValidateKeyPair_parsed [OF sample_parse_selfsigned] sample_selfsigned_san_findings
    by (simp add: NewAggregate_def)
  from validate_reports_every_difference [of sample_key_pem
             "CertToPem (sample_selfsigned sample_cfg_san)" sample_key
             "sample_selfsigned sample_cfg_san" 1700000002468340546 sample_cfg_san 0
             sample_caKey "sample_selfsigned sample_cfg_san" 3233 17]
    validate_reports_every_difference [of sample_caKey_pem
             "CertToPem (sample_selfsigned sample_cfg_san)" sample_key
             "sample_selfsigned sample_cfg_san" 1700000002468340546 sample_cfg_san 0
             sample_caKey "sample_selfsigned sample_cfg_san" 3233 17]
    sample_parse_selfsigned [of sample_cfg_san] d k c p n v
  show ?thesis by simp
qed

theorem validate_remaining_validity_boundary_counterexample:
  "parsePemKeypair sample_key_pem (CertToPem sample_old) = Inr (sample_key, sample_old) \<and>
   cNotAfter sample_old = - 8520336000000000000 \<and>
   sint (0x8000000000000000 :: 64 word) = - 9223372036854775808 \<and>
   1700000000000000000 > cNotAfter sample_old - sint (0x8000000000000000 :: 64 word) \<and>
   \<not> records_validity_failure (ValidateKeyPair 1700000000000000000 sample_key_pem
         (CertToPem sample_old) sample_cfg_san 0x8000000000000000)"
proof -
  have a: "cNotAfter sample_old = - 8520336000000000000"
    by (simp add: sample_old_def ext_sel sample_old_fields_def)
  have "\<not> list_ex is_validity_finding
           (findings 1700000000000000000 sample_old sample_cfg_san 0x8000000000000000)"
    unfolding validity_finding_iff a by simp
  then show ?thesis
    unfolding ValidateKeyPair_parsed [OF sample_parse_old] records_NewAggregate
    using sample_parse_old a by simp
qed

theorem validate_remaining_validity_boundary_witness:
  "parsePemKeypair sample_key_pem (CertToPem (sample_signed sample_cfg_san)) =
     Inr (sample_key, sample_signed sample_cfg_san) \<and>
   cNotAfter (sample_signed sample_cfg_san) = 1700003600000000000 \<and> sint (5 :: 64 word) = 5 \<and>
   records_validity_failure (ValidateKeyPair 1700003599999999996 sample_key_pem
       (CertToPem (sample_signed sample_cfg_san)) sample_cfg_san 5) \<and>
   \<not> records_validity_failure (ValidateKeyPair 1700003599999999995 sample_key_pem
       (CertToPem (sample_signed sample_cfg_san)) sample_cfg_san 5)"
proof -
  have a: "cNotAfter (sample_signed sample_cfg_san) = 1700003600000000000"
    by (simp add: sample_signed_fields sample_cfg_san_def der_time_def)
  from validate_remaining_validity_boundary [OF sample_parse_signed [of sample_cfg_san],
         of 1700003599999999996 sample_cfg_san 5]
    validate_remaining_validity_boundary [OF sample_parse_signed [of sample_cfg_san],
         of 1700003599999999995 sample_cfg_san 5]
    sample_parse_signed [of sample_cfg_san] a
  show ?thesis by simp
qed

theorem self_signed_rejects_unset_subject_witness:
  "CommonName (Subject (sample_cfg\<lparr>Subject := zero_Name\<rparr>)) = [] \<and>
   SelfSignedCertificate sample_env (sample_cfg\<lparr>Subject := zero_Name\<rparr>) sample_key =
     Inl InvalidSubject"
  using self_signed_rejects_unset_subject [of "sample_cfg\<lparr>Subject := zero_Name\<rparr>" sample_env sample_key]
  by (simp add: zero_Name_def sample_env_def)

theorem pem_round_trip_witness:
  "rsa_Validate sample_key \<and> PrivateKeyToPem sample_key = Inr sample_key_pem \<and>
   PemToPrivateKey sample_key_pem = Inr sample_key \<and>
   SelfSignedCertificate sample_env sample_cfg_san sample_key = Inr (sample_selfsigned sample_cfg_san) \<and>
   PemToCertificate (CertToPem (sample_selfsigned sample_cfg_san)) =
     Inr (sample_selfsigned sample_cfg_san) \<and>
   signedCertificate sample_env sample_cfg_san (sample_csr sample_cfg_san) sample_key
       sample_caCert sample_caKey = Inr (sample_signed sample_cfg_san) \<and>
   PemToCertificate (CertToPem (sample_signed sample_cfg_san)) = Inr (sample_signed sample_cfg_san) \<and>
   x509_ParseCertificateRequest (DER_CertificateRequest (csr_of sample_cfg_san sample_key)) =
     Inr (sample_csr sample_cfg_san) \<and>
   pem_Decode (CSRToPem (sample_csr sample_cfg_san)) =
     Some \<lparr>Type = ''CERTIFICATE REQUEST'',
           Bytes = DER_CertificateRequest (csr_of sample_cfg_san sample_key)\<rparr>"
proof -
  have r: "x509_ParseCertificateRequest (DER_CertificateRequest (csr_of sample_cfg_san sample_key)) =
     Inr (sample_csr sample_cfg_san)"
    by (simp add: sample_csr_def)
  have d: "pem_Decode (CSRToPem (sample_csr sample_cfg_san)) =
     Some \<lparr>Type = ''CERTIFICATE REQUEST'',
           Bytes = DER_CertificateRequest (csr_of sample_cfg_san sample_key)\<rparr>"
    by (simp add: CSRToPem_def pem_EncodeToMemory_def sample_csr_def CSR_fields.extend_def)
  from pem_round_trip [of sample_key sample_env sample_cfg_san sample_key "sample_selfsigned sample_cfg_san"
             "sample_csr sample_cfg_san" sample_caCert sample_caKey "sample_signed sample_cfg_san"
             "Raw (sample_signed sample_cfg_san)" "sample_signed sample_cfg_san"
             "DER_CertificateRequest (csr_of sample_cfg_san sample_key)" "sample_csr sample_cfg_san"]
    sample_key_valid sample_key_pem sample_SelfSigned [OF sample_subjects(2)] sample_signedCertificate [of sample_cfg_san] r d
  show ?thesis by auto
qed

theorem pem_encoding_total_witness:
  "2 \<le> length (Primes sample_key) \<and> PrivateKeyToPem sample_key = Inr sample_key_pem"
  using pem_encoding_total [of sample_key 3233 17 "sample_signed sample_cfg_san" "sample_csr sample_cfg_san"]
    sample_key_pem
  by (simp add: sample_key_def)

theorem signed_panics_on_non_rsa_ca_key_witness:
  "rand_Int sample_env = Inr 42 \<and> cPublicKey sample_ecCert = Some (ECDSAPublicKey P256 1 2) \<and>
   signedCertificate sample_env sample_cfg_san (sample_csr sample_cfg_san) sample_key
       sample_ecCert sample_caKey = Inl Panic \<and>
   GenerateSignedCertificate sample_env sample_caKey sample_ecCert sample_cfg_san = Inl Panic"
proof -
  have r: "rand_Int sample_env = Inr 42" by (simp add: sample_env_def)
  have p: "cPublicKey sample_ecCert = Some (ECDSAPublicKey P256 1 2)"
    by (simp add: sample_ecCert_def)
  then have q: "\<forall>n e. cPublicKey sample_ecCert \<noteq> Some (RSAPublicKey n e)" by simp
  have g: "rsa_GenerateKey sample_env = Inr sample_key \<and> CreateCertificateRequest_err sample_env = None"
    by (simp add: sample_env_def)
  from signed_panics_on_non_rsa_ca_key [OF q r, of sample_cfg_san
         "sample_csr sample_cfg_san" sample_key sample_caKey sample_key] g r p
  show ?thesis by simp
qed

end
